theory Spec2Isabelle
  imports Main "HOL-Library.Sublist"
begin

section \<open>Exceptions and host values\<close>

text \<open>
  Every exception the modelled code raises is a value; a function that may raise returns
  \<open>error + 'a\<close> with \<open>Inl\<close> the exception. The string is the exception's message.
\<close>

datatype error =
    is_TypeError: TypeError string
  | is_ValueError: ValueError string
  | is_NotImplementedError: NotImplementedError string
  | is_UnsupportedOperationError: UnsupportedOperationError string
  | is_OperationNotDefinedError: OperationNotDefinedError string
  | is_OverflowError: OverflowError string
  | is_KeyError: KeyError string

definition raises :: "(error \<Rightarrow> bool) \<Rightarrow> error + 'a \<Rightarrow> bool" where
  "raises kind r = (case r of Inl e \<Rightarrow> kind e | Inr _ \<Rightarrow> False)"


text \<open>Decimal rendering of Python integers (\<open>str\<close>, \<open>repr\<close> and the \<open>d\<close> format).\<close>

definition digit_char :: "nat \<Rightarrow> char" where
  "digit_char d = ''0123456789'' ! d"

function str_nat :: "nat \<Rightarrow> string" where
  "str_nat n = (if n < 10 then [digit_char n] else str_nat (n div 10) @ [digit_char (n mod 10)])"
  by pat_completeness auto
termination
  by (relation "measure id") auto

definition str_int :: "int \<Rightarrow> string" where
  "str_int i = (if i < 0 then CHR ''-'' # str_nat (nat (- i)) else str_nat (nat i))"

section \<open>The type system: \<open>ibis/expr/datatypes/core.py\<close>\<close>

subsection \<open>The class taxonomy\<close>

text \<open>
  One constructor per class of the module, and one for each base class it takes from
  \<open>ibis.common\<close> (\<open>Concrete\<close>, \<open>Coercible\<close>, \<open>Singleton\<close>, \<open>MapSet\<close>).
\<close>

datatype cls =
    Concrete | Coercible | Singleton | MapSet
  | DataType | Unknown | Primitive | Variadic | Parametric | Null | Boolean
  | Numeric | Integer | String | Binary | Temporal | Date | Time | Timestamp
  | SignedInteger | UnsignedInteger | Floating
  | Int8 | Int16 | Int32 | Int64 | UInt8 | UInt16 | UInt32 | UInt64
  | Float16 | Float32 | Float64
  | Decimal | Interval | Struct | Array | Set | Map | JSON
  | GeoSpatial | Point | LineString | Polygon | MultiLineString | MultiPoint | MultiPolygon
  | UUID | MACADDR | INET

text \<open>
  \<open>bases c\<close> is the base-class list of the statement \<open>class c(...)\<close>, in the order written.
  The classes of \<open>ibis.common\<close> have no base among the classes listed here.
\<close>

fun bases :: "cls \<Rightarrow> cls list" where
  "bases DataType = [Concrete, Coercible]"
| "bases Unknown = [DataType, Singleton]"
| "bases Primitive = [DataType, Singleton]"
| "bases Variadic = [DataType]"
| "bases Parametric = [DataType]"
| "bases Null = [Primitive]"
| "bases Boolean = [Primitive]"
| "bases Numeric = [DataType]"
| "bases Integer = [Primitive, Numeric]"
| "bases String = [Variadic, Singleton]"
| "bases Binary = [Variadic, Singleton]"
| "bases Temporal = [DataType]"
| "bases Date = [Temporal, Primitive]"
| "bases Time = [Temporal, Primitive]"
| "bases Timestamp = [Temporal, Parametric]"
| "bases SignedInteger = [Integer]"
| "bases UnsignedInteger = [Integer]"
| "bases Floating = [Primitive, Numeric]"
| "bases Int8 = [SignedInteger]"
| "bases Int16 = [SignedInteger]"
| "bases Int32 = [SignedInteger]"
| "bases Int64 = [SignedInteger]"
| "bases UInt8 = [UnsignedInteger]"
| "bases UInt16 = [UnsignedInteger]"
| "bases UInt32 = [UnsignedInteger]"
| "bases UInt64 = [UnsignedInteger]"
| "bases Float16 = [Floating]"
| "bases Float32 = [Floating]"
| "bases Float64 = [Floating]"
| "bases Decimal = [Numeric, Parametric]"
| "bases Interval = [Parametric]"
| "bases Struct = [Parametric, MapSet]"
| "bases Array = [Variadic, Parametric]"
| "bases Set = [Variadic, Parametric]"
| "bases Map = [Variadic, Parametric]"
| "bases JSON = [Variadic]"
| "bases GeoSpatial = [DataType]"
| "bases Point = [GeoSpatial]"
| "bases LineString = [GeoSpatial]"
| "bases Polygon = [GeoSpatial]"
| "bases MultiLineString = [GeoSpatial]"
| "bases MultiPoint = [GeoSpatial]"
| "bases MultiPolygon = [GeoSpatial]"
| "bases UUID = [DataType]"
| "bases MACADDR = [String]"
| "bases INET = [String]"
| "bases _ = []"

text \<open>
  The height of a class in the hierarchy; it only serves the termination proof of
  \<open>issubclass\<close>: every base of a class lies strictly below it.
\<close>

fun level :: "cls \<Rightarrow> nat" where
  "level Concrete = 0" | "level Coercible = 0" | "level Singleton = 0" | "level MapSet = 0"
| "level DataType = 1"
| "level Unknown = 2" | "level Primitive = 2" | "level Variadic = 2" | "level Parametric = 2"
| "level Numeric = 2" | "level Temporal = 2" | "level GeoSpatial = 2" | "level UUID = 2"
| "level SignedInteger = 4" | "level UnsignedInteger = 4" | "level MACADDR = 4"
| "level INET = 4" | "level Float16 = 4" | "level Float32 = 4" | "level Float64 = 4"
| "level Int8 = 5" | "level Int16 = 5" | "level Int32 = 5" | "level Int64 = 5"
| "level UInt8 = 5" | "level UInt16 = 5" | "level UInt32 = 5" | "level UInt64 = 5"
| "level _ = 3"

fun top_level :: "cls list \<Rightarrow> nat" where
  "top_level [] = 0"
| "top_level (b # bs) = max (Suc (level b)) (top_level bs)"

lemma bases_level: "b \<in> set (bases c) \<Longrightarrow> level b < level c"
  by (cases c) auto

lemma top_level_bases: "top_level (bases c) \<le> level c"
proof -
  have "(\<forall>b \<in> set bs. level b < n) \<Longrightarrow> top_level bs \<le> n" for bs n
    by (induction bs) auto
  then show ?thesis using bases_level by blast
qed

text \<open>
  Python's \<open>issubclass(c, d)\<close>: \<open>d\<close> is \<open>c\<close> or is reached from \<open>c\<close> through base classes.
\<close>

function issubclass :: "cls \<Rightarrow> cls \<Rightarrow> bool"
  and any_issubclass :: "cls list \<Rightarrow> cls \<Rightarrow> bool" where
  "issubclass c d = (c = d \<or> any_issubclass (bases c) d)"
| "any_issubclass [] d = False"
| "any_issubclass (b # bs) d = (issubclass b d \<or> any_issubclass bs d)"
  by pat_completeness auto
termination
proof (relation "measures
    [\<lambda>x. case x of Inl (c, d) \<Rightarrow> Suc (level c) | Inr (bs, d) \<Rightarrow> top_level bs,
     \<lambda>x. case x of Inl (c, d) \<Rightarrow> 0 | Inr (bs, d) \<Rightarrow> Suc (length bs)]", goal_cases)
  case 1
  show ?case by simp
next
  case (2 c d)
  show ?case using top_level_bases [of c] by simp
next
  case (3 b bs d)
  show ?case by (auto simp: max_def)
next
  case (4 b bs d)
  show ?case by (auto simp: max_def)
qed

subsection \<open>Type instances and the kind predicates\<close>

text \<open>
  An instance of \<open>DataType\<close> carries its class and the attribute \<open>nullable\<close> (default
  \<open>True\<close>); \<open>isinstance\<close> looks at the class only.
\<close>

record dtype =
  py_class :: cls
  nullable :: bool

definition isinstance :: "'a dtype_scheme \<Rightarrow> cls \<Rightarrow> bool" where
  "isinstance self c = issubclass (py_class self) c"

definition is_array :: "'a dtype_scheme \<Rightarrow> bool" where
  "is_array self = isinstance self Array"

definition is_boolean :: "'a dtype_scheme \<Rightarrow> bool" where
  "is_boolean self = isinstance self Boolean"

definition is_date :: "'a dtype_scheme \<Rightarrow> bool" where
  "is_date self = isinstance self Date"

definition is_decimal :: "'a dtype_scheme \<Rightarrow> bool" where
  "is_decimal self = isinstance self Decimal"

definition is_floating :: "'a dtype_scheme \<Rightarrow> bool" where
  "is_floating self = isinstance self Floating"

definition is_inet :: "'a dtype_scheme \<Rightarrow> bool" where
  "is_inet self = isinstance self INET"

definition is_integer :: "'a dtype_scheme \<Rightarrow> bool" where
  "is_integer self = isinstance self Integer"

definition is_interval :: "'a dtype_scheme \<Rightarrow> bool" where
  "is_interval self = isinstance self Interval"

definition is_macaddr :: "'a dtype_scheme \<Rightarrow> bool" where
  "is_macaddr self = isinstance self MACADDR"

definition is_map :: "'a dtype_scheme \<Rightarrow> bool" where
  "is_map self = isinstance self Map"

definition is_numeric :: "'a dtype_scheme \<Rightarrow> bool" where
  "is_numeric self = isinstance self Numeric"

definition is_set :: "'a dtype_scheme \<Rightarrow> bool" where
  "is_set self = isinstance self Set"

definition is_string :: "'a dtype_scheme \<Rightarrow> bool" where
  "is_string self = isinstance self String"

definition is_struct :: "'a dtype_scheme \<Rightarrow> bool" where
  "is_struct self = isinstance self Struct"

definition is_timestamp :: "'a dtype_scheme \<Rightarrow> bool" where
  "is_timestamp self = isinstance self Timestamp"

definition is_uuid :: "'a dtype_scheme \<Rightarrow> bool" where
  "is_uuid self = isinstance self UUID"

text \<open>The module-level instances \<open>macaddr = MACADDR()\<close>, \<open>inet = INET()\<close>, \<open>string = String()\<close>,
  \<open>float64 = Float64()\<close> and \<open>int64 = Int64()\<close>.\<close>

definition macaddr :: dtype where
  "macaddr = \<lparr>py_class = MACADDR, nullable = True\<rparr>"

definition inet :: dtype where
  "inet = \<lparr>py_class = INET, nullable = True\<rparr>"

definition string :: dtype where
  "string = \<lparr>py_class = String, nullable = True\<rparr>"

definition float64 :: dtype where
  "float64 = \<lparr>py_class = Float64, nullable = True\<rparr>"


subsection \<open>Integer bounds\<close>

text \<open>The class attribute \<open>nbytes\<close>; it is abstract (absent) on the classes that do not set it.\<close>

fun nbytes :: "cls \<Rightarrow> int option" where
  "nbytes Int8 = Some 1"
| "nbytes Int16 = Some 2"
| "nbytes Int32 = Some 4"
| "nbytes Int64 = Some 8"
| "nbytes UInt8 = Some 1"
| "nbytes UInt16 = Some 2"
| "nbytes UInt32 = Some 4"
| "nbytes UInt64 = Some 8"
| "nbytes Float16 = Some 2"
| "nbytes Float32 = Some 4"
| "nbytes Float64 = Some 8"
| "nbytes _ = None"

record Bounds =
  lower :: int
  upper :: int

text \<open>
  Python's \<open>1 << exp\<close> and \<open>~upper\<close> on unbounded integers. The shift count is
  \<open>nbytes * 8 - 1\<close>, which is at least 7 for every class that sets \<open>nbytes\<close>.
\<close>

definition SignedInteger_bounds :: "int \<Rightarrow> Bounds" where
  "SignedInteger_bounds nb =
     (let exp = nb * 8 - 1;
          upper = push_bit (nat exp) (1::int) - 1
      in \<lparr>lower = not upper, upper = upper\<rparr>)"

definition UnsignedInteger_bounds :: "int \<Rightarrow> Bounds" where
  "UnsignedInteger_bounds nb =
     (let exp = nb * 8 - 1;
          upper = push_bit (nat exp) (1::int)
      in \<lparr>lower = 0, upper = upper\<rparr>)"

text \<open>
  The property \<open>bounds\<close> of an integer type: the definition of \<open>SignedInteger\<close> or of
  \<open>UnsignedInteger\<close>, read with the class's own \<open>nbytes\<close>.
\<close>

definition bounds :: "cls \<Rightarrow> Bounds option" where
  "bounds c =
     (if issubclass c SignedInteger then map_option SignedInteger_bounds (nbytes c)
      else if issubclass c UnsignedInteger then map_option UnsignedInteger_bounds (nbytes c)
      else None)"

subsection \<open>Construction of \<open>Decimal\<close>\<close>

text \<open>
  An argument of \<open>Decimal.__init__\<close>: \<open>None\<close>, an instance of \<open>numbers.Integral\<close>, or a
  value of another type (named, for the message).
\<close>

datatype pyarg = PyNone | Integral int | NonIntegral string

record decimal = dtype +
  precision :: "int option"
  scale :: "int option"

fun integral_value :: "pyarg \<Rightarrow> int option" where
  "integral_value (Integral i) = Some i"
| "integral_value _ = None"

text \<open>The checks of \<open>precision\<close> and of \<open>scale\<close>, in the order of the source.\<close>

fun check_precision :: "pyarg \<Rightarrow> error option" where
  "check_precision PyNone = None"
| "check_precision (NonIntegral t) =
     Some (TypeError (''Decimal type precision must be an integer; got <class '' @ [CHR 0x27] @ t @ [CHR 0x27] @ ''>''))"
| "check_precision (Integral p) =
     (if p < 0 then Some (ValueError ''Decimal type precision cannot be negative'')
      else if p = 0 then Some (ValueError ''Decimal type precision cannot be zero'')
      else None)"

fun check_scale :: "pyarg \<Rightarrow> pyarg \<Rightarrow> error option" where
  "check_scale prec PyNone = None"
| "check_scale prec (NonIntegral t) = Some (TypeError ''Decimal type scale must be an integer'')"
| "check_scale prec (Integral s) =
     (if s < 0 then Some (ValueError ''Decimal type scale cannot be negative'')
      else (case prec of
              Integral p \<Rightarrow>
                if p < s then
                  Some (ValueError (''Decimal type precision must be greater than or equal to ''
                    @ ''scale. Got precision='' @ str_int p @ '' and scale='' @ str_int s))
                else None
            | _ \<Rightarrow> None))"

text \<open>
  \<open>Decimal.__init__(precision, scale, nullable)\<close>: the instance exists only when both
  checks pass (the call to \<open>super().__init__\<close> is the last statement).
\<close>

definition Decimal_init :: "pyarg \<Rightarrow> pyarg \<Rightarrow> bool \<Rightarrow> error + decimal" where
  "Decimal_init prec scal nullable' =
     (case check_precision prec of
        Some e \<Rightarrow> Inl e
      | None \<Rightarrow>
          (case check_scale prec scal of
             Some e \<Rightarrow> Inl e
           | None \<Rightarrow> Inr \<lparr>py_class = Decimal, nullable = nullable',
                           precision = integral_value prec, scale = integral_value scal\<rparr>))"

section \<open>Host values\<close>

text \<open>
  The Python values a literal carries. A finite float \<open>Finite m e\<close> stands for \<open>m * 2 ^ e\<close>;
  \<open>DecInf signed\<close> is the infinite \<open>decimal.Decimal\<close> with sign bit \<open>signed\<close>; a UUID is
  kept as its \<open>str\<close>; a dictionary is its list of items, with string keys.
\<close>

datatype pyfloat = Finite int int | NaN | PosInf | NegInf

datatype pydecimal = DecFinite string | DecNaN | DecInf bool

datatype pyvalue =
    VNone
  | VBool bool
  | VInt int
  | VFloat pyfloat
  | VStr string
  | VDecimal pydecimal
  | VUUID string
  | VList "pyvalue list"
  | VDict "(string \<times> pyvalue) list"

text \<open>\<open>sep.join(xs)\<close>.\<close>

fun join :: "string \<Rightarrow> string list \<Rightarrow> string" where
  "join sep [] = []"
| "join sep [x] = x"
| "join sep (x # y # ys) = x @ sep @ join sep (y # ys)"

text \<open>
  \<open>repr\<close> of a \<open>str\<close> of printable ASCII characters, tabs, newlines and carriage returns:
  double quotes when the text holds a single quote and no double quote, single quotes
  otherwise; the backslash and the chosen quote are escaped.
\<close>

fun escape_char :: "char \<Rightarrow> char \<Rightarrow> string" where
  "escape_char q c =
     (if c = CHR 0x5C then [CHR 0x5C, CHR 0x5C]
      else if c = q then [CHR 0x5C, q]
      else if c = CHR 0x0A then [CHR 0x5C, CHR ''n'']
      else if c = CHR 0x0D then [CHR 0x5C, CHR ''r'']
      else if c = CHR 0x09 then [CHR 0x5C, CHR ''t'']
      else [c])"

definition repr_str :: "string \<Rightarrow> string" where
  "repr_str s =
     (let q = (if CHR 0x27 \<in> set s \<and> CHR 0x22 \<notin> set s then CHR 0x22 else CHR 0x27)
      in [q] @ concat (map (escape_char q) s) @ [q])"

text \<open>
  \<open>repr\<close> and \<open>str\<close> of a value. The shortest round-trip rendering of a finite float is
  not modelled: it is the parameter \<open>float_repr\<close>.
\<close>

fun repr_float :: "(int \<Rightarrow> int \<Rightarrow> string) \<Rightarrow> pyfloat \<Rightarrow> string" where
  "repr_float float_repr (Finite m e) = float_repr m e"
| "repr_float float_repr NaN = ''nan''"
| "repr_float float_repr PosInf = ''inf''"
| "repr_float float_repr NegInf = ''-inf''"

fun str_decimal :: "pydecimal \<Rightarrow> string" where
  "str_decimal (DecFinite s) = s"
| "str_decimal DecNaN = ''NaN''"
| "str_decimal (DecInf signed) = (if signed then ''-Infinity'' else ''Infinity'')"

fun py_repr :: "(int \<Rightarrow> int \<Rightarrow> string) \<Rightarrow> pyvalue \<Rightarrow> string"
  and repr_items :: "(int \<Rightarrow> int \<Rightarrow> string) \<Rightarrow> pyvalue list \<Rightarrow> string list"
  and repr_pairs :: "(int \<Rightarrow> int \<Rightarrow> string) \<Rightarrow> (string \<times> pyvalue) list \<Rightarrow> string list" where
  "py_repr fr VNone = ''None''"
| "py_repr fr (VBool b) = (if b then ''True'' else ''False'')"
| "py_repr fr (VInt i) = str_int i"
| "py_repr fr (VFloat f) = repr_float fr f"
| "py_repr fr (VStr s) = repr_str s"
| "py_repr fr (VDecimal d) = ''Decimal('' @ repr_str (str_decimal d) @ '')''"
| "py_repr fr (VUUID s) = ''UUID('' @ repr_str s @ '')''"
| "py_repr fr (VList xs) = ''['' @ join '', '' (repr_items fr xs) @ '']''"
| "py_repr fr (VDict kvs) = ''{'' @ join '', '' (repr_pairs fr kvs) @ ''}''"
| "repr_items fr [] = []"
| "repr_items fr (x # xs) = py_repr fr x # repr_items fr xs"
| "repr_pairs fr [] = []"
| "repr_pairs fr ((k, v) # kvs) = (repr_str k @ '': '' @ py_repr fr v) # repr_pairs fr kvs"

fun py_str :: "(int \<Rightarrow> int \<Rightarrow> string) \<Rightarrow> pyvalue \<Rightarrow> string" where
  "py_str fr (VStr s) = s"
| "py_str fr (VDecimal d) = str_decimal d"
| "py_str fr (VUUID s) = s"
| "py_str fr v = py_repr fr v"

text \<open>Truth value of a value in a condition.\<close>

fun truthy :: "pyvalue \<Rightarrow> bool" where
  "truthy VNone = False"
| "truthy (VBool b) = b"
| "truthy (VInt i) = (i \<noteq> 0)"
| "truthy (VFloat (Finite m e)) = (m \<noteq> 0)"
| "truthy (VFloat _) = True"
| "truthy (VStr s) = (s \<noteq> [])"
| "truthy (VDecimal (DecFinite s)) =
     list_ex (\<lambda>c. c \<in> set ''123456789'') (takeWhile (\<lambda>c. c \<noteq> CHR ''E'' \<and> c \<noteq> CHR ''e'') s)"
| "truthy (VDecimal _) = True"
| "truthy (VUUID s) = True"
| "truthy (VList xs) = (xs \<noteq> [])"
| "truthy (VDict kvs) = (kvs \<noteq> [])"

text \<open>
  \<open>math.isfinite\<close>: the argument is converted to a float first, which overflows for an
  integer that rounds to \<open>2 ^ 1024\<close> and is a type error for a value that is no number.
  \<open>np.isfinite\<close> has no overflow on Python integers of the literal types, and no
  conversion for decimals.
\<close>

fun math_isfinite :: "pyvalue \<Rightarrow> error + bool" where
  "math_isfinite (VFloat (Finite m e)) = Inr True"
| "math_isfinite (VFloat _) = Inr False"
| "math_isfinite (VInt i) =
     (if \<bar>i\<bar> < 2 ^ 1024 - 2 ^ 970 then Inr True
      else Inl (OverflowError ''int too large to convert to float''))"
| "math_isfinite (VBool b) = Inr True"
| "math_isfinite (VDecimal (DecFinite s)) = Inr True"
| "math_isfinite (VDecimal _) = Inr False"
| "math_isfinite _ = Inl (TypeError ''must be real number'')"

fun np_isfinite :: "pyvalue \<Rightarrow> error + bool" where
  "np_isfinite (VFloat (Finite m e)) = Inr True"
| "np_isfinite (VFloat _) = Inr False"
| "np_isfinite (VInt i) = Inr True"
| "np_isfinite (VBool b) = Inr True"
| "np_isfinite _ = Inl (TypeError ''ufunc isfinite not supported for the input types'')"

fun isnan :: "pyvalue \<Rightarrow> bool" where
  "isnan (VFloat NaN) = True"
| "isnan (VDecimal DecNaN) = True"
| "isnan _ = False"

text \<open>The comparisons \<open>value > 0\<close> and \<open>value < 0\<close>, on the non-finite values they are applied to.\<close>

fun positive :: "pyvalue \<Rightarrow> bool" where
  "positive (VFloat PosInf) = True"
| "positive (VDecimal (DecInf signed)) = (\<not> signed)"
| "positive _ = False"

fun negative :: "pyvalue \<Rightarrow> bool" where
  "negative (VFloat NegInf) = True"
| "negative (VDecimal (DecInf signed)) = signed"
| "negative _ = False"

section \<open>The literal formatter: \<open>ibis/backends/base/sql/registry/literal.py\<close>\<close>

text \<open>The operation \<open>ops.Literal\<close>: a value and its declared type.\<close>

record Literal =
  op_value :: pyvalue
  output_dtype :: dtype

type_synonym formatter = "Literal \<Rightarrow> error + string"

text \<open>
  The formatters take the translator as their first argument and only the set formatter
  uses it; it is left out of the three below.
\<close>

definition boolean_literal_format :: formatter where
  "boolean_literal_format op = Inr (if truthy (op_value op) then ''TRUE'' else ''FALSE'')"

definition string_literal_format :: formatter where
  "string_literal_format op =
     (case op_value op of
        VStr s \<Rightarrow>
          Inr ([CHR 0x27]
               @ concat (map (\<lambda>c. if c = CHR 0x27 then [CHR 0x5C, CHR 0x27] else [c]) s)
               @ [CHR 0x27])
      | _ \<Rightarrow> Inl (TypeError ''replace() of a value that is no str''))"

definition number_literal_format :: "(int \<Rightarrow> int \<Rightarrow> string) \<Rightarrow> formatter" where
  "number_literal_format float_repr op =
     (case math_isfinite (op_value op) of
        Inl e \<Rightarrow> Inl e
      | Inr True \<Rightarrow> Inr (py_repr float_repr (op_value op))
      | Inr False \<Rightarrow>
          (let formatted_val =
                 (if isnan (op_value op) then ''NaN''
                  else if positive (op_value op) then ''Infinity''
                  else ''-Infinity'')
           in Inr (''CAST('' @ repr_str formatted_val @ '' AS DOUBLE)'')))"

text \<open>
  The dictionary \<open>literal_formatters\<close>. The interval, timestamp, date and set formatters
  render through \<open>datetime\<close>, the interval unit and the translator; they are parameters.
\<close>

definition literal_formatters ::
  "(int \<Rightarrow> int \<Rightarrow> string) \<Rightarrow> formatter \<Rightarrow> formatter \<Rightarrow> formatter \<Rightarrow> formatter
    \<Rightarrow> string \<rightharpoonup> formatter" where
  "literal_formatters float_repr interval_literal_format timestamp_literal_format
       date_literal_format set_literal_format =
     [''boolean'' \<mapsto> boolean_literal_format,
      ''number'' \<mapsto> number_literal_format float_repr,
      ''string'' \<mapsto> string_literal_format,
      ''interval'' \<mapsto> interval_literal_format,
      ''timestamp'' \<mapsto> timestamp_literal_format,
      ''date'' \<mapsto> date_literal_format,
      ''set'' \<mapsto> set_literal_format]"

text \<open>The coarse kind \<open>typeclass\<close> of a type, by the \<open>if\<close>/\<open>elif\<close> chain of \<open>literal\<close>.\<close>

definition typeclass :: "dtype \<Rightarrow> string option" where
  "typeclass dtype =
     (if is_boolean dtype then Some ''boolean''
      else if is_string dtype then Some ''string''
      else if is_date dtype then Some ''date''
      else if is_numeric dtype then Some ''number''
      else if is_timestamp dtype then Some ''timestamp''
      else if is_interval dtype then Some ''interval''
      else if is_set dtype then Some ''set''
      else None)"

text \<open>
  \<open>literal(translator, op)\<close>. \<open>formatters\<close> is the dictionary \<open>literal_formatters\<close> and
  \<open>dtype_repr\<close> the \<open>repr\<close> of a type, used in the message only.
\<close>

definition literal :: "(string \<rightharpoonup> formatter) \<Rightarrow> (dtype \<Rightarrow> string) \<Rightarrow> Literal \<Rightarrow> error + string" where
  "literal formatters dtype_repr op =
     (let dtype = output_dtype op in
      if op_value op = VNone then Inr ''NULL''
      else (case typeclass dtype of
              None \<Rightarrow> Inl (NotImplementedError (''Unsupported type: '' @ dtype_repr dtype))
            | Some tc \<Rightarrow>
                (case formatters tc of
                   None \<Rightarrow> Inl (KeyError tc)
                 | Some format \<Rightarrow> format op)))"

section \<open>Dialect registries: \<open>ibis/backends/duckdb/registry.py\<close>, \<open>ibis/backends/bigquery/registry.py\<close>\<close>

subsection \<open>Operation registries and denylists\<close>

text \<open>
  A registry is a dictionary from operation classes to translation rules. An operation
  class of \<open>ibis.expr.operations\<close> is its name; a lookup is by the class itself, never by a
  base class. The rules are of any type \<open>'r\<close>: \<open>rule k\<close> is the rule the source writes at key
  \<open>k\<close> of a dictionary display.
\<close>

type_synonym opkind = string

definition duckdb_overlay_keys :: "opkind list" where
  "duckdb_overlay_keys =
    [''ArrayColumn'', ''ArrayConcat'', ''ArrayRepeat'', ''ArrayLength'', ''ArraySlice'',
     ''ArrayIndex'', ''ArrayMap'', ''ArrayFilter'', ''ArrayContains'', ''ArrayPosition'',
     ''ArrayDistinct'', ''ArraySort'', ''ArrayRemove'', ''ArrayUnion'', ''DayOfWeekName'',
     ''Literal'', ''Log2'', ''Ln'', ''Log'', ''IsNan'', ''Modulus'', ''Round'',
     ''StructField'', ''TableColumn'', ''TimestampFromUNIX'', ''TimestampNow'',
     ''RegexExtract'', ''RegexReplace'', ''RegexSearch'', ''StringContains'', ''ApproxMedian'',
     ''ApproxCountDistinct'', ''Mode'', ''Strftime'', ''Arbitrary'', ''GroupConcat'',
     ''StructColumn'', ''ArgMin'', ''ArgMax'', ''BitwiseXor'', ''JSONGetItem'', ''RowID'',
     ''StringToTimestamp'', ''Quantile'', ''MultiQuantile'', ''TypeOf'', ''IntervalAdd'',
     ''IntervalSubtract'', ''Capitalize'', ''ArrayStringJoin'', ''SearchedCase'',
     ''SimpleCase'', ''StartsWith'', ''EndsWith'', ''Argument'', ''Unnest'', ''MapGet'',
     ''Map'', ''MapContains'', ''MapLength'', ''MapKeys'', ''MapValues'', ''MapMerge'']"

definition duckdb_invalid_operations :: "opkind set" where
  "duckdb_invalid_operations =
     {''CumulativeAll'', ''CumulativeAny'', ''CumulativeOp'', ''NTile'',
      ''Translate'',
      ''ToJSONMap'', ''ToJSONArray''}"

text \<open>
  The three module-level statements that build DuckDB's \<open>operation_registry\<close>: the Postgres
  registry without the keys of \<open>geospatial_functions\<close> (both imported, hence parameters),
  updated with the overlay, then filtered by the denylist.
\<close>

definition duckdb_operation_registry ::
  "(opkind \<rightharpoonup> 'r) \<Rightarrow> opkind set \<Rightarrow> (opkind \<Rightarrow> 'r) \<Rightarrow> (opkind \<rightharpoonup> 'r)" where
  "duckdb_operation_registry postgres_registry geospatial_functions rule =
     (let operation_registry = postgres_registry |` (- geospatial_functions);
          operation_registry = operation_registry ++ map_of (map (\<lambda>k. (k, rule k)) duckdb_overlay_keys)
      in operation_registry |` (- duckdb_invalid_operations))"

definition bigquery_overlay_keys :: "opkind list" where
  "bigquery_overlay_keys =
    [''Literal'', ''Any'', ''All'', ''IfNull'', ''NullIf'', ''NullIfZero'', ''ZeroIfNull'',
     ''ApproxMedian'', ''Covariance'', ''Correlation'', ''Divide'', ''Floor'', ''Modulus'',
     ''Sign'', ''BitwiseNot'', ''BitwiseXor'', ''BitwiseOr'', ''BitwiseAnd'',
     ''BitwiseLeftShift'', ''BitwiseRightShift'', ''Date'', ''DateFromYMD'', ''DateAdd'',
     ''DateSub'', ''DateTruncate'', ''DayOfWeekIndex'', ''DayOfWeekName'',
     ''ExtractEpochSeconds'', ''ExtractYear'', ''ExtractQuarter'', ''ExtractMonth'',
     ''ExtractWeekOfYear'', ''ExtractDay'', ''ExtractDayOfYear'', ''ExtractHour'',
     ''ExtractMinute'', ''ExtractSecond'', ''ExtractMillisecond'', ''Strftime'',
     ''StringToTimestamp'', ''Time'', ''TimeFromHMS'', ''TimeTruncate'', ''TimestampAdd'',
     ''TimestampFromUNIX'', ''TimestampFromYMDHMS'', ''TimestampNow'', ''TimestampSub'',
     ''TimestampTruncate'', ''IntervalMultiply'', ''Hash'', ''StringReplace'', ''StringSplit'',
     ''StringConcat'', ''StringJoin'', ''StringAscii'', ''StringFind'', ''Substring'',
     ''StrRight'', ''Capitalize'', ''Translate'', ''Repeat'', ''RegexSearch'',
     ''RegexExtract'', ''RegexReplace'', ''GroupConcat'', ''Cast'', ''StructField'',
     ''StructColumn'', ''ArrayCollect'', ''ArrayConcat'', ''ArrayColumn'', ''ArrayIndex'',
     ''ArrayLength'', ''ArrayRepeat'', ''ArraySlice'', ''Log'', ''Log2'', ''Arbitrary'',
     ''GeoUnaryUnion'', ''GeoArea'', ''GeoAsBinary'', ''GeoAsText'', ''GeoAzimuth'',
     ''GeoBuffer'', ''GeoCentroid'', ''GeoContains'', ''GeoCovers'', ''GeoCoveredBy'',
     ''GeoDWithin'', ''GeoDifference'', ''GeoDisjoint'', ''GeoDistance'', ''GeoEndPoint'',
     ''GeoEquals'', ''GeoGeometryType'', ''GeoIntersection'', ''GeoIntersects'', ''GeoLength'',
     ''GeoMaxDistance'', ''GeoNPoints'', ''GeoPerimeter'', ''GeoPoint'', ''GeoPointN'',
     ''GeoSimplify'', ''GeoStartPoint'', ''GeoTouches'', ''GeoUnion'', ''GeoWithin'', ''GeoX'',
     ''GeoXMax'', ''GeoXMin'', ''GeoY'', ''GeoYMax'', ''GeoYMin'', ''BitAnd'', ''BitOr'',
     ''BitXor'', ''ApproxCountDistinct'', ''ApproxMedian'', ''IdenticalTo'', ''FloorDivide'',
     ''IsNan'', ''IsInf'', ''ArgMin'', ''ArgMax'', ''Pi'', ''E'', ''RandomScalar'',
     ''NthValue'', ''JSONGetItem'', ''ArrayStringJoin'', ''StartsWith'', ''EndsWith'']"

definition bigquery_invalid_operations :: "opkind set" where
  "bigquery_invalid_operations =
     {''FindInSet'', ''DateDiff'', ''TimestampDiff'',
      ''ExtractAuthority'', ''ExtractFile'', ''ExtractFragment'', ''ExtractHost'',
      ''ExtractPath'', ''ExtractProtocol'', ''ExtractQuery'', ''ExtractUserInfo''}"

text \<open>
  BigQuery's \<open>OPERATION_REGISTRY\<close>: the base SQL registry (imported, a parameter) with the
  overlay laid over it, then filtered by the denylist.
\<close>

definition bigquery_OPERATION_REGISTRY :: "(opkind \<rightharpoonup> 'r) \<Rightarrow> (opkind \<Rightarrow> 'r) \<Rightarrow> (opkind \<rightharpoonup> 'r)" where
  "bigquery_OPERATION_REGISTRY operation_registry rule =
     (let OPERATION_REGISTRY = operation_registry ++ map_of (map (\<lambda>k. (k, rule k)) bigquery_overlay_keys)
      in OPERATION_REGISTRY |` (- bigquery_invalid_operations))"

subsection \<open>SQLAlchemy expressions\<close>

text \<open>
  The SQLAlchemy constructs the DuckDB rules build: \<open>sa.null()\<close>, \<open>sa.literal(v)\<close> (a bound
  value), \<open>sa.literal_column(text)\<close>, \<open>sa.cast(e, type)\<close>, \<open>sa.func.name(args)\<close>,
  \<open>struct_pack(values, type=type)\<close>, a binary operator and unary minus. A SQLAlchemy type
  is its name.
\<close>

datatype sa =
    SaNull
  | SaLiteral pyvalue
  | SaLiteralColumn string
  | SaCast sa string
  | SaFunc string "sa list"
  | SaStructPack "(string \<times> sa) list" string
  | SaBinary string sa sa
  | SaNeg sa

subsection \<open>Literals of DuckDB and BigQuery\<close>

text \<open>
  The fields of a struct value are translated one after the other; the first exception
  ends the translation. \<open>field_type\<close> gives the type of a field of a struct type, by name.
\<close>

fun translate_items ::
  "(Literal \<Rightarrow> error + 'o) \<Rightarrow> (string \<rightharpoonup> dtype) \<Rightarrow> (string \<times> pyvalue) list
    \<Rightarrow> error + (string \<times> 'o) list" where
  "translate_items translate field_type [] = Inr []"
| "translate_items translate field_type ((key, val) # rest) =
     (case field_type key of
        None \<Rightarrow> Inl (KeyError key)
      | Some t \<Rightarrow>
          (case translate \<lparr>op_value = val, output_dtype = t\<rparr> of
             Inl e \<Rightarrow> Inl e
           | Inr x \<Rightarrow>
               (case translate_items translate field_type rest of
                  Inl e \<Rightarrow> Inl e
                | Inr xs \<Rightarrow> Inr ((key, x) # xs))))"

text \<open>
  DuckDB's \<open>_literal(t, op)\<close>. Of the translator it uses \<open>t.translate\<close> and
  \<open>t.get_sqla_type\<close>; of the type, beside the kind predicates, \<open>dtype.resolution\<close> and
  \<open>dtype[key]\<close> (\<open>resolution dtype\<close> and \<open>struct_fields dtype key\<close>), which the type record
  does not hold and which are parameters.
\<close>

definition duckdb_literal ::
  "(Literal \<Rightarrow> error + sa) \<Rightarrow> (dtype \<Rightarrow> string) \<Rightarrow> (dtype \<Rightarrow> string)
    \<Rightarrow> (dtype \<Rightarrow> string \<rightharpoonup> dtype) \<Rightarrow> (int \<Rightarrow> int \<Rightarrow> string) \<Rightarrow> Literal \<Rightarrow> error + sa" where
  "duckdb_literal translate get_sqla_type resolution struct_fields float_repr op =
     (let dtype = output_dtype op; val = op_value op in
      if val = VNone then Inr SaNull
      else
        let sqla_type = get_sqla_type dtype in
        if is_interval dtype then
          Inr (SaLiteralColumn (''INTERVAL '' @ [CHR 0x27] @ py_str float_repr val @ '' '' @ resolution dtype @ [CHR 0x27]))
        else if is_set dtype \<or> is_array dtype then
          (case val of
             VList vals \<Rightarrow> Inr (SaCast (SaFunc ''list_value'' (map SaLiteral vals)) sqla_type)
           | _ \<Rightarrow> Inl (TypeError ''argument after * must be an iterable''))
        else if is_floating dtype then
          (case np_isfinite val of
             Inl e \<Rightarrow> Inl e
           | Inr True \<Rightarrow> Inr (SaCast (SaLiteral val) sqla_type)
           | Inr False \<Rightarrow>
               if isnan val then Inr (SaCast (SaLiteral (VStr ''NaN'')) sqla_type)
               else
                 let prefix = (if negative val then ''-'' else '''')
                 in Inr (SaCast (SaLiteral (VStr (prefix @ ''Inf''))) sqla_type))
        else if is_struct dtype then
          (case val of
             VDict items \<Rightarrow>
               (case translate_items translate (struct_fields dtype) items of
                  Inl e \<Rightarrow> Inl e
                | Inr packed \<Rightarrow> Inr (SaStructPack packed sqla_type))
           | _ \<Rightarrow> Inl (TypeError ''items() of a value that is no mapping''))
        else if is_string dtype then Inr (SaLiteral val)
        else if is_map dtype then
          (case val of
             VDict items \<Rightarrow>
               Inr (SaFunc ''map''
                     [SaFunc ''list_value'' (map (\<lambda>(k, v). SaLiteral (VStr k)) items),
                      SaFunc ''list_value'' (map (\<lambda>(k, v). SaLiteral v) items)])
           | _ \<Rightarrow> Inl (TypeError ''keys() of a value that is no mapping''))
        else Inr (SaCast (SaLiteral val) sqla_type))"

text \<open>
  BigQuery's \<open>_literal(translator, op)\<close>. \<open>ibis_type_to_bigquery_type\<close> is imported;
  \<open>struct_fields\<close> lists the names and types of a struct type; \<open>formatters\<close> and \<open>dtype_repr\<close> are
  passed on to \<open>literal\<close>. Dates, times and byte strings are not among the modelled host
  values: the branches of these types render \<open>str(value)\<close>, and \<open>base64.b64encode\<close> refuses
  every modelled value.
\<close>

fun struct_cols ::
  "(Literal \<Rightarrow> error + string) \<Rightarrow> (string \<times> pyvalue) list \<Rightarrow> (string \<times> dtype) list
    \<Rightarrow> error + string list" where
  "struct_cols translate items [] = Inr []"
| "struct_cols translate items ((name, type) # rest) =
     (case map_of items name of
        None \<Rightarrow> Inl (KeyError name)
      | Some v \<Rightarrow>
          (case translate \<lparr>op_value = v, output_dtype = type\<rparr> of
             Inl e \<Rightarrow> Inl e
           | Inr text \<Rightarrow>
               (case struct_cols translate items rest of
                  Inl e \<Rightarrow> Inl e
                | Inr texts \<Rightarrow> Inr ((text @ '' AS '' @ name) # texts))))"

definition array_literal_format :: "(int \<Rightarrow> int \<Rightarrow> string) \<Rightarrow> Literal \<Rightarrow> error + string" where
  "array_literal_format float_repr op =
     (case op_value op of
        VList xs \<Rightarrow> Inr (py_str float_repr (VList xs))
      | VDict items \<Rightarrow> Inr (py_str float_repr (VList (map (\<lambda>(k, v). VStr k) items)))
      | VStr s \<Rightarrow> Inr (py_str float_repr (VList (map (\<lambda>c. VStr [c]) s)))
      | _ \<Rightarrow> Inl (TypeError ''object is not iterable''))"

definition bigquery_literal ::
  "(Literal \<Rightarrow> error + string) \<Rightarrow> (dtype \<Rightarrow> string) \<Rightarrow> (dtype \<Rightarrow> (string \<times> dtype) list)
    \<Rightarrow> (string \<rightharpoonup> formatter) \<Rightarrow> (dtype \<Rightarrow> string) \<Rightarrow> (int \<Rightarrow> int \<Rightarrow> string)
    \<Rightarrow> Literal \<Rightarrow> error + string" where
  "bigquery_literal translate ibis_type_to_bigquery_type struct_fields formatters dtype_repr float_repr op =
     (let dtype = output_dtype op; val = op_value op in
      if val = VNone then Inr ''NULL''
      else if is_decimal dtype then
        (case val of
           VDecimal DecNaN \<Rightarrow> Inr ''CAST('NaN' AS FLOAT64)''
         | VDecimal (DecInf signed) \<Rightarrow>
             (let prefix = (if signed then ''-'' else '''')
              in Inr (''CAST('' @ [CHR 0x27] @ prefix @ ''inf' AS FLOAT64)''))
         | VDecimal (DecFinite s) \<Rightarrow>
             Inr (ibis_type_to_bigquery_type dtype @ '' '' @ [CHR 0x27] @ py_str float_repr val @ [CHR 0x27])
         | _ \<Rightarrow> Inl (TypeError ''is_nan() of a value that is no Decimal''))
      else if is_uuid dtype then
        translate \<lparr>op_value = VStr (py_str float_repr val), output_dtype = string\<rparr>
      else
        (case (if isinstance dtype Numeric then np_isfinite val else Inr True) of
           Inl e \<Rightarrow> Inl e
         | Inr False \<Rightarrow> Inr (''CAST('' @ repr_str (py_str float_repr val) @ '' AS FLOAT64)'')
         | Inr True \<Rightarrow>
             if isinstance dtype Date then Inr (''DATE '' @ [CHR 0x27] @ py_str float_repr val @ [CHR 0x27])
             else if isinstance dtype Timestamp then
               Inr (''TIMESTAMP '' @ [CHR 0x27] @ py_str float_repr val @ [CHR 0x27])
             else if isinstance dtype Time then Inr (''TIME '' @ [CHR 0x27] @ py_str float_repr val @ [CHR 0x27])
             else if isinstance dtype Binary then
               Inl (TypeError ''a bytes-like object is required'')
             else if is_struct dtype then
               (case val of
                  VDict items \<Rightarrow>
                    (case struct_cols translate items (struct_fields dtype) of
                       Inl e \<Rightarrow> Inl e
                     | Inr cols \<Rightarrow> Inr (''STRUCT('' @ join '', '' cols @ '')''))
                | _ \<Rightarrow> Inl (TypeError ''value is not subscriptable by name''))
             else
               (case literal formatters dtype_repr op of
                  Inl (NotImplementedError m) \<Rightarrow>
                    if isinstance dtype Array then array_literal_format float_repr op
                    else Inl (NotImplementedError (''Unsupported type: '' @ dtype_repr dtype))
                | r \<Rightarrow> r)))"

subsection \<open>Array indexing\<close>


text \<open>BigQuery's \<open>_neg_idx_to_pos(array, idx)\<close>, on compiled text; only \<open>_array_slice\<close> calls it.\<close>

definition bigquery_neg_idx_to_pos :: "string \<Rightarrow> string \<Rightarrow> string" where
  "bigquery_neg_idx_to_pos array idx =
     ''IF('' @ idx @ '' < 0, ARRAY_LENGTH('' @ array @ '') + '' @ idx @ '', '' @ idx @ '')''"


text \<open>
  BigQuery's \<open>_array_slice(t, op)\<close>; \<open>stop\<close> is \<open>None\<close> when the slice has no upper end.
\<close>

definition bigquery_array_slice ::
  "('e \<Rightarrow> error + string) \<Rightarrow> 'e \<Rightarrow> 'e \<Rightarrow> 'e option \<Rightarrow> error + string" where
  "bigquery_array_slice translate arg start stop =
     (case translate arg of
        Inl e \<Rightarrow> Inl e
      | Inr arg' \<Rightarrow>
          (case translate start of
             Inl e \<Rightarrow> Inl e
           | Inr start' \<Rightarrow>
               (case (case stop of
                        None \<Rightarrow> Inr []
                      | Some s \<Rightarrow>
                          (case translate s of
                             Inl e \<Rightarrow> Inl e
                           | Inr stop' \<Rightarrow> Inr [''index < '' @ bigquery_neg_idx_to_pos arg' stop'])) of
                  Inl e \<Rightarrow> Inl e
                | Inr stop_cond \<Rightarrow>
                    (let cond = (''index >= '' @ bigquery_neg_idx_to_pos arg' start') # stop_cond
                     in Inr (''ARRAY('' @ ''SELECT el '' @ ''FROM UNNEST('' @ arg'
                             @ '') AS el WITH OFFSET index '' @ ''WHERE '' @ join '' AND '' cond
                             @ '')'')))))"



subsection \<open>Units of truncation and of interval arithmetic\<close>

text \<open>
  The enumerations of \<open>ibis.common.enums\<close> are imported. A member is its class, its
  \<open>name\<close> and its value (the attribute \<open>short\<close>); the members of a class are a parameter
  wherever the sources iterate over the class.
\<close>

datatype unit = Unit (enum_class: string) (unit_name: string) (short: string)










text \<open>The allow-lists of BigQuery (\<open>BigQuery doesn't support nanosecond intervals\<close>).\<close>

definition DATE_UNITS :: "unit set \<Rightarrow> unit set" where
  "DATE_UNITS DateUnit = DateUnit"








section \<open>Grouped tables: \<open>ibis/expr/types/groupby.py\<close>\<close>

subsection \<open>Window frames and expressions\<close>

text \<open>
  A window frame (\<open>ops.RowsWindowFrame\<close>, \<open>ops.RangeWindowFrame\<close>; the classes are imported):
  its clause, its table, its grouping and ordering keys (two tuples) and its two bounds. A
  key is the name of the key expression.
\<close>

type_synonym key = string

datatype how = ROWS | RANGE

record WindowFrame =
  how :: how
  frame_table :: string
  group_by :: "key list"
  order_by :: "key list"
  frame_start :: "int option"
  frame_end :: "int option"

text \<open>
  The expressions a projection holds: a column, a scalar function call, an aggregate
  function call (a reduction), a windowed call, and a named expression (\<open>expr.name(k)\<close>).
\<close>

datatype expr =
    TableColumn string
  | ScalarCall string "expr list"
  | Reduction string "expr list"
  | WindowFunction expr WindowFrame
  | Alias expr string

text \<open>\<open>util.promote_list\<close>: a list is itself, \<open>None\<close> is the empty list, another value is a singleton.\<close>

datatype 'a promotable = PNone | POne 'a | PList "'a list"

fun promote_list :: "'a promotable \<Rightarrow> 'a list" where
  "promote_list PNone = []"
| "promote_list (POne x) = [x]"
| "promote_list (PList xs) = xs"

subsection \<open>\<open>GroupedTable\<close>\<close>

text \<open>
  The attributes \<open>table\<close>, \<open>by\<close>, \<open>_order_by\<close>, \<open>_having\<close> and \<open>_window\<close>; the first three
  sequences are lists (\<open>self.by = list(...)\<close>, \<open>order_by or []\<close>, \<open>having or []\<close>).
\<close>

record GroupedTable =
  gt_table :: string
  gt_by :: "key list"
  gt_order_by :: "key list"
  gt_having :: "string list"
  gt_window :: "WindowFrame option"

text \<open>
  \<open>GroupedTable.__init__\<close> without keyword expressions. \<open>get_group_by_key table v\<close> lists the
  keys that \<open>_get_group_by_key\<close> yields for \<open>v\<close>; it resolves \<open>v\<close> against the table through
  imported functions and is a parameter.
\<close>

definition GroupedTable_init ::
  "(string \<Rightarrow> key \<Rightarrow> key list) \<Rightarrow> string \<Rightarrow> key list \<Rightarrow> string list option \<Rightarrow> key list option
    \<Rightarrow> WindowFrame option \<Rightarrow> GroupedTable" where
  "GroupedTable_init get_group_by_key tbl by_arg having_arg order_by_arg window_arg =
     \<lparr>gt_table = tbl,
      gt_by = concat (map (get_group_by_key tbl) by_arg),
      gt_order_by = (case order_by_arg of None \<Rightarrow> [] | Some ks \<Rightarrow> ks),
      gt_having = (case having_arg of None \<Rightarrow> [] | Some hs \<Rightarrow> hs),
      gt_window = window_arg\<rparr>"

text \<open>
  \<open>GroupedTable.order_by(expr)\<close> and \<open>GroupedTable.over(window, ...)\<close>. When \<open>over\<close> gets no
  window it builds one with \<open>ibis.window\<close> from its keyword arguments: \<open>ibis_window kwargs\<close>.
\<close>

definition GroupedTable_order_by ::
  "(string \<Rightarrow> key \<Rightarrow> key list) \<Rightarrow> GroupedTable \<Rightarrow> key promotable \<Rightarrow> GroupedTable" where
  "GroupedTable_order_by get_group_by_key self e =
     GroupedTable_init get_group_by_key (gt_table self) (gt_by self) (Some (gt_having self))
       (Some (gt_order_by self @ promote_list e)) (gt_window self)"

definition over ::
  "(string \<Rightarrow> key \<Rightarrow> key list) \<Rightarrow> ('kw \<Rightarrow> WindowFrame) \<Rightarrow> GroupedTable \<Rightarrow> WindowFrame option
    \<Rightarrow> 'kw \<Rightarrow> GroupedTable" where
  "over get_group_by_key ibis_window self window_arg kwargs =
     (let w = (case window_arg of None \<Rightarrow> ibis_window kwargs | Some w \<Rightarrow> w)
      in GroupedTable_init get_group_by_key (gt_table self) (gt_by self) (Some (gt_having self))
           (Some (gt_order_by self)) (Some w))"

text \<open>
  The method \<open>copy(**overrides)\<close> of a frame is inherited from \<open>ibis.common\<close>: it returns the
  frame with the fields named by the keywords replaced. The sources do not show what it does
  with a keyword that names no field; \<open>strict\<close> says whether it raises \<open>TypeError\<close> or leaves
  the fields alone. Both keywords of the one call in the sources carry key lists.
\<close>

fun frame_copy :: "bool \<Rightarrow> WindowFrame \<Rightarrow> (string \<times> key list) list \<Rightarrow> error + WindowFrame" where
  "frame_copy strict w [] = Inr w"
| "frame_copy strict w ((k, v) # overrides) =
     (if k = ''group_by'' then frame_copy strict (w\<lparr>group_by := v\<rparr>) overrides
      else if k = ''order_by'' then frame_copy strict (w\<lparr>order_by := v\<rparr>) overrides
      else if strict then Inl (TypeError (''got an unexpected keyword argument '' @ repr_str k))
      else frame_copy strict w overrides)"

text \<open>
  Python's \<open>+\<close> on sequences. A list and a tuple are different types: two lists or two
  tuples are concatenated, a list and a tuple raise \<open>TypeError\<close>.
\<close>

datatype pyseq = PyList "key list" | PyTuple "key list"

fun seq_items :: "pyseq \<Rightarrow> key list" where
  "seq_items (PyList ks) = ks"
| "seq_items (PyTuple ks) = ks"

fun seq_add :: "pyseq \<Rightarrow> pyseq \<Rightarrow> error + pyseq" where
  "seq_add (PyList xs) (PyList ys) = Inr (PyList (xs @ ys))"
| "seq_add (PyTuple xs) (PyTuple ys) = Inr (PyTuple (xs @ ys))"
| "seq_add (PyTuple xs) (PyList ys) =
     Inl (TypeError (''can only concatenate tuple (not '' @ [CHR 0x22] @ ''list'' @ [CHR 0x22]
                     @ '') to tuple''))"
| "seq_add (PyList xs) (PyTuple ys) =
     Inl (TypeError (''can only concatenate list (not '' @ [CHR 0x22] @ ''tuple'' @ [CHR 0x22]
                     @ '') to list''))"

text \<open>
  \<open>GroupedTable._get_window\<close>. Without a window it builds the default \<open>ROWS\<close> frame. With
  one, the arguments of the call to \<open>copy\<close> are evaluated first, from left to right:
  \<open>self._window.group_by + self.by\<close> and \<open>self._window.order_by + self._order_by\<close>. A frame
  holds its keys as tuples, and \<open>self.by\<close> and \<open>self._order_by\<close> are lists. The first keyword
  of the call is spelt \<open>groupy_by\<close>.
\<close>

definition get_window :: "bool \<Rightarrow> GroupedTable \<Rightarrow> error + WindowFrame" where
  "get_window strict self =
     (case gt_window self of
        None \<Rightarrow>
          Inr \<lparr>how = ROWS, frame_table = gt_table self, group_by = gt_by self,
               order_by = gt_order_by self, frame_start = None, frame_end = None\<rparr>
      | Some w \<Rightarrow>
          (case seq_add (PyTuple (group_by w)) (PyList (gt_by self)) of
             Inl e \<Rightarrow> Inl e
           | Inr groupy_by \<Rightarrow>
               (case seq_add (PyTuple (order_by w)) (PyList (gt_order_by self)) of
                  Inl e \<Rightarrow> Inl e
                | Inr merged_order \<Rightarrow>
                    frame_copy strict w
                      [(''groupy_by'', seq_items groupy_by), (''order_by'', seq_items merged_order)])))"

text \<open>
  \<open>GroupedTable._selectables(*exprs, **kwexprs)\<close>. \<open>an.windowize_function\<close> and
  \<open>table._ensure_expr\<close> are imported and are the parameters \<open>windowize\<close> and \<open>ensure_expr\<close>.
\<close>

definition selectables ::
  "(expr \<Rightarrow> WindowFrame \<Rightarrow> expr) \<Rightarrow> ('a \<Rightarrow> expr promotable) \<Rightarrow> bool \<Rightarrow> GroupedTable
    \<Rightarrow> 'a promotable list \<Rightarrow> (string \<times> 'a) list \<Rightarrow> error + expr list" where
  "selectables windowize ensure_expr strict self exprs kwexprs =
     (case get_window strict self of
        Inl e \<Rightarrow> Inl e
      | Inr default_frame \<Rightarrow>
          Inr (concat (map (\<lambda>ex. concat (map (\<lambda>e1. map (\<lambda>e2. windowize e2 default_frame)
                                                       (promote_list (ensure_expr e1)))
                                             (promote_list ex)))
                           exprs)
               @ concat (map (\<lambda>(k, ex). map (\<lambda>e. Alias (windowize e default_frame) k)
                                              (promote_list (ensure_expr ex)))
                             kwexprs)))"

text \<open>
  The expressions a projection is given, in the order \<open>_selectables\<close> visits them: the
  positional ones, and the keyword ones with their names.
\<close>

definition positional :: "('a \<Rightarrow> expr promotable) \<Rightarrow> 'a promotable list \<Rightarrow> expr list" where
  "positional ensure_expr exprs =
     concat (map (\<lambda>ex. concat (map (\<lambda>e1. promote_list (ensure_expr e1)) (promote_list ex))) exprs)"

definition keyword :: "('a \<Rightarrow> expr promotable) \<Rightarrow> (string \<times> 'a) list \<Rightarrow> (string \<times> expr) list" where
  "keyword ensure_expr kwexprs =
     concat (map (\<lambda>(k, ex). map (\<lambda>e. (k, e)) (promote_list (ensure_expr ex))) kwexprs)"

text \<open>
  \<open>GroupedTable.mutate\<close> and \<open>GroupedTable.select\<close> hand the expressions of \<open>_selectables\<close> to
  the table's own \<open>mutate\<close> and \<open>select\<close>.
\<close>

datatype projection = Mutate string "expr list" | Select string "expr list"

definition mutate ::
  "(expr \<Rightarrow> WindowFrame \<Rightarrow> expr) \<Rightarrow> ('a \<Rightarrow> expr promotable) \<Rightarrow> bool \<Rightarrow> GroupedTable
    \<Rightarrow> 'a promotable list \<Rightarrow> (string \<times> 'a) list \<Rightarrow> error + projection" where
  "mutate windowize ensure_expr strict self exprs kwexprs =
     (case selectables windowize ensure_expr strict self exprs kwexprs of
        Inl e \<Rightarrow> Inl e
      | Inr es \<Rightarrow> Inr (Mutate (gt_table self) es))"

definition select ::
  "(expr \<Rightarrow> WindowFrame \<Rightarrow> expr) \<Rightarrow> ('a \<Rightarrow> expr promotable) \<Rightarrow> bool \<Rightarrow> GroupedTable
    \<Rightarrow> 'a promotable list \<Rightarrow> (string \<times> 'a) list \<Rightarrow> error + projection" where
  "select windowize ensure_expr strict self exprs kwexprs =
     (case selectables windowize ensure_expr strict self exprs kwexprs of
        Inl e \<Rightarrow> Inl e
      | Inr es \<Rightarrow> Inr (Select (gt_table self) es))"

text \<open>
  The aggregate calls of an expression that stand under no window, and the windowed calls
  of an expression with their frames.
\<close>

fun unwindowed :: "expr \<Rightarrow> expr list" where
  "unwindowed (TableColumn c) = []"
| "unwindowed (ScalarCall f args) = concat (map unwindowed args)"
| "unwindowed (Reduction f args) = [Reduction f args]"
| "unwindowed (WindowFunction e fr) = []"
| "unwindowed (Alias e n) = unwindowed e"

fun windows :: "expr \<Rightarrow> (expr \<times> WindowFrame) list" where
  "windows (TableColumn c) = []"
| "windows (ScalarCall f args) = concat (map windows args)"
| "windows (Reduction f args) = []"
| "windows (WindowFunction e fr) = [(e, fr)]"
| "windows (Alias e n) = windows e"

section \<open>Parts modelled from the specification\<close>

text \<open>
  Modelled from the spec: \<open>an.windowize_function\<close> of \<open>ibis.expr.analysis\<close>, which is not
  among the sources. Section 4.3: every aggregate-function call in the projected
  expressions that is not already explicitly windowed is wrapped with the default frame.
\<close>

fun windowize_function :: "expr \<Rightarrow> WindowFrame \<Rightarrow> expr" where
  "windowize_function (TableColumn c) frame = TableColumn c"
| "windowize_function (ScalarCall f args) frame = ScalarCall f (map (\<lambda>a. windowize_function a frame) args)"
| "windowize_function (Reduction f args) frame = WindowFunction (Reduction f args) frame"
| "windowize_function (WindowFunction e fr) frame = WindowFunction e fr"
| "windowize_function (Alias e n) frame = Alias (windowize_function e frame) n"



text \<open>
  Modelled from the spec: the translator of the compiler, which is not among the sources.
  Section 4.4: a single bottom-up walk, children first, their text substituted into the
  parent's rule; a node kind with no rule in the dialect's registry raises
  \<open>OperationNotDefinedError\<close>, and nothing is retried. A node is its operation kind and its
  children; a rule takes the children's text.
\<close>

datatype node = Node opkind "node list"

type_synonym rule = "string list \<Rightarrow> error + string"

fun compile :: "(opkind \<rightharpoonup> rule) \<Rightarrow> node \<Rightarrow> error + string"
  and compile_all :: "(opkind \<rightharpoonup> rule) \<Rightarrow> node list \<Rightarrow> error + string list" where
  "compile registry (Node k children) =
     (case compile_all registry children of
        Inl e \<Rightarrow> Inl e
      | Inr texts \<Rightarrow>
          (case registry k of
             None \<Rightarrow> Inl (OperationNotDefinedError (''No translation rule for '' @ k))
           | Some r \<Rightarrow> r texts))"
| "compile_all registry [] = Inr []"
| "compile_all registry (n # ns) =
     (case compile registry n of
        Inl e \<Rightarrow> Inl e
      | Inr t \<Rightarrow>
          (case compile_all registry ns of
             Inl e \<Rightarrow> Inl e
           | Inr ts \<Rightarrow> Inr (t # ts)))"

text \<open>The operation kinds that occur in an expression.\<close>

fun kinds :: "node \<Rightarrow> opkind set"
  and kinds_all :: "node list \<Rightarrow> opkind set" where
  "kinds (Node k children) = insert k (kinds_all children)"
| "kinds_all [] = {}"
| "kinds_all (n # ns) = kinds n \<union> kinds_all ns"

section \<open>Properties of the type system\<close>

subsection \<open>Kind predicates\<close>

text \<open>
  Claim C8, as amended. \<open>MACADDR\<close> and \<open>INET\<close> are declared as subclasses of \<open>String\<close>, so
  \<open>is_string()\<close> returns \<open>True\<close> for an instance of \<open>String\<close>, of \<open>MACADDR\<close> or of \<open>INET\<close>,
  and \<open>False\<close> for an instance of any other class.
\<close>

theorem is_string_kinds:
  "is_string t \<longleftrightarrow> py_class t \<in> {String, MACADDR, INET}"
  unfolding is_string_def isinstance_def by (cases "py_class t") simp_all

text \<open>
  Claim C8 as stated fails: the instances \<open>inet\<close> and \<open>macaddr\<close> are not of class \<open>String\<close>
  itself, and \<open>is_string()\<close> is \<open>True\<close> for both.
\<close>

theorem is_string_inet_macaddr_counterexample:
  "is_string inet \<and> is_string macaddr
   \<and> py_class inet \<noteq> String \<and> py_class macaddr \<noteq> String"
  by (simp add: is_string_def isinstance_def inet_def macaddr_def)

subsection \<open>Integer bounds\<close>

lemma nbytes_pos: "nbytes c = Some nb \<Longrightarrow> 1 \<le> nb"
  by (cases c) auto

lemma SignedInteger_bounds_eq:
  "1 \<le> nb \<Longrightarrow> SignedInteger_bounds nb =
     \<lparr>lower = - (2 ^ nat (8 * nb - 1)), upper = 2 ^ nat (8 * nb - 1) - 1\<rparr>"
  by (simp add: SignedInteger_bounds_def Let_def push_bit_of_1 not_int_def mult.commute)

lemma UnsignedInteger_bounds_eq:
  "UnsignedInteger_bounds nb = \<lparr>lower = 0, upper = 2 ^ nat (8 * nb - 1)\<rparr>"
  by (simp add: UnsignedInteger_bounds_def Let_def push_bit_of_1 mult.commute)

lemma half_range: "1 \<le> nb \<Longrightarrow> 2 * (2::int) ^ nat (8 * nb - 1) = 2 ^ nat (8 * nb)"
proof -
  assume "1 \<le> nb"
  then have "nat (8 * nb) = Suc (nat (8 * nb - 1))" by simp
  then show ?thesis by simp
qed

lemma signed_not_unsigned: "issubclass c SignedInteger \<Longrightarrow> \<not> issubclass c UnsignedInteger"
  by (cases c) simp_all

text \<open>The integer classes that set \<open>nbytes\<close> are exactly the eight concrete ones.\<close>

lemma unsigned_classes:
  "issubclass c UnsignedInteger \<and> nbytes c \<noteq> None \<longleftrightarrow> c \<in> {UInt8, UInt16, UInt32, UInt64}"
  by (cases c) simp_all

lemma signed_classes:
  "issubclass c SignedInteger \<and> nbytes c \<noteq> None \<longleftrightarrow> c \<in> {Int8, Int16, Int32, Int64}"
  by (cases c) simp_all

text \<open>
  Claim C10. For an unsigned integer type of \<open>nbytes\<close> bytes, \<open>bounds\<close> is
  \<open>lower = 0\<close>, \<open>upper = 2 ^ (8 * nbytes - 1)\<close>, which is half of \<open>2 ^ (8 * nbytes)\<close> (so
  \<open>UInt8().bounds.upper\<close> is 128); for a signed integer type it is
  \<open>lower = - 2 ^ (8 * nbytes - 1)\<close>, \<open>upper = 2 ^ (8 * nbytes - 1) - 1\<close>.
\<close>

theorem integer_bounds:
  "(issubclass c UnsignedInteger \<and> nbytes c = Some nb \<longrightarrow>
      bounds c = Some \<lparr>lower = 0, upper = 2 ^ nat (8 * nb - 1)\<rparr>
      \<and> 2 * (2::int) ^ nat (8 * nb - 1) = 2 ^ nat (8 * nb))
   \<and> (issubclass c SignedInteger \<and> nbytes c = Some nb \<longrightarrow>
      bounds c = Some \<lparr>lower = - (2 ^ nat (8 * nb - 1)), upper = 2 ^ nat (8 * nb - 1) - 1\<rparr>)
   \<and> bounds UInt8 = Some \<lparr>lower = 0, upper = 128\<rparr>"
proof (intro conjI impI)
  assume a: "issubclass c UnsignedInteger \<and> nbytes c = Some nb"
  then have "\<not> issubclass c SignedInteger" using signed_not_unsigned by blast
  with a show "bounds c = Some \<lparr>lower = 0, upper = 2 ^ nat (8 * nb - 1)\<rparr>"
    by (simp add: bounds_def UnsignedInteger_bounds_eq)
  from a show "2 * (2::int) ^ nat (8 * nb - 1) = 2 ^ nat (8 * nb)"
    using nbytes_pos half_range by blast
next
  assume a: "issubclass c SignedInteger \<and> nbytes c = Some nb"
  then have "1 \<le> nb" using nbytes_pos by blast
  with a show "bounds c =
      Some \<lparr>lower = - (2 ^ nat (8 * nb - 1)), upper = 2 ^ nat (8 * nb - 1) - 1\<rparr>"
    by (simp add: bounds_def SignedInteger_bounds_eq)
next
  show "bounds UInt8 = Some \<lparr>lower = 0, upper = 128\<rparr>"
    by (simp add: bounds_def UnsignedInteger_bounds_eq)
qed

text \<open>The bounds of \<open>UInt16\<close>, \<open>Int8\<close>, \<open>Int64\<close> and \<open>UInt64\<close>, read off the theorem.\<close>

theorem integer_bounds_witness:
  "bounds UInt16 = Some \<lparr>lower = 0, upper = 32768\<rparr>
   \<and> bounds Int8 = Some \<lparr>lower = - 128, upper = 127\<rparr>
   \<and> bounds Int64 = Some \<lparr>lower = - 9223372036854775808, upper = 9223372036854775807\<rparr>
   \<and> bounds UInt64 = Some \<lparr>lower = 0, upper = 9223372036854775808\<rparr>"
  using integer_bounds [of UInt16 2] integer_bounds [of Int8 1] integer_bounds [of Int64 8]
    integer_bounds [of UInt64 8]
  by simp

subsection \<open>Validation in \<open>Decimal.__init__\<close>\<close>

lemma check_precision_Integral:
  "check_precision (Integral p) = None \<longleftrightarrow> 1 \<le> p"
  by simp

lemma check_scale_Integral:
  "check_scale (Integral p) (Integral s) = None \<longleftrightarrow> 0 \<le> s \<and> s \<le> p"
  by simp

text \<open>
  Claim C1, as amended. For integers \<open>precision\<close> and \<open>scale\<close>, \<open>Decimal(precision, scale)\<close>
  raises \<open>ValueError\<close> (never \<open>TypeError\<close>) exactly when \<open>precision < 0\<close>, \<open>precision = 0\<close>,
  \<open>scale < 0\<close> or \<open>precision < scale\<close>, and this before an instance exists; it returns
  an instance, holding the two parameters, exactly when \<open>precision \<ge> 1\<close> and
  \<open>precision \<ge> scale \<ge> 0\<close>.
\<close>

theorem Decimal_init_validation:
  "(raises is_ValueError (Decimal_init (Integral p) (Integral s) n)
      \<longleftrightarrow> p < 0 \<or> p = 0 \<or> s < 0 \<or> p < s)
   \<and> \<not> raises is_TypeError (Decimal_init (Integral p) (Integral s) n)
   \<and> (1 \<le> p \<and> 0 \<le> s \<and> s \<le> p \<longrightarrow>
        Decimal_init (Integral p) (Integral s) n =
          Inr \<lparr>py_class = Decimal, nullable = n, precision = Some p, scale = Some s\<rparr>)
   \<and> ((\<exists>d. Decimal_init (Integral p) (Integral s) n = Inr d) \<longrightarrow> 1 \<le> p \<and> 0 \<le> s \<and> s \<le> p)"
  by (auto simp: Decimal_init_def raises_def split: option.splits if_splits)

theorem Decimal_init_validation_witness:
  "Decimal_init (Integral 10) (Integral 2) True =
     Inr \<lparr>py_class = Decimal, nullable = True, precision = Some 10, scale = Some 2\<rparr>
   \<and> raises is_ValueError (Decimal_init (Integral 2) (Integral 10) True)
   \<and> raises is_ValueError (Decimal_init (Integral (- 1)) (Integral (- 2)) True)"
  using Decimal_init_validation [of 10 2 True] Decimal_init_validation [of 2 10 True]
    Decimal_init_validation [of "- 1" "- 2" True]
  by simp

text \<open>
  Claim C1 as stated fails twice: \<open>Decimal(0, 0)\<close> has \<open>precision \<ge> scale \<ge> 0\<close> and is
  refused, and the exception raised for \<open>scale > precision\<close> (as for a zero precision) is a
  \<open>ValueError\<close>, not a type error.
\<close>

theorem Decimal_init_counterexample:
  "Decimal_init (Integral 0) (Integral 0) True =
     Inl (ValueError ''Decimal type precision cannot be zero'')
   \<and> Decimal_init (Integral 1) (Integral 2) True =
     Inl (ValueError (''Decimal type precision must be greater than or equal to ''
       @ ''scale. Got precision=1 and scale=2''))
   \<and> \<not> raises is_TypeError (Decimal_init (Integral 1) (Integral 2) True)"
  by (simp add: Decimal_init_def raises_def str_int_def digit_char_def)

section \<open>Properties of the literal formatter\<close>

lemma floating_kinds:
  "issubclass c Floating \<Longrightarrow>
     \<not> issubclass c Boolean \<and> \<not> issubclass c String \<and> \<not> issubclass c Date \<and> issubclass c Numeric
     \<and> \<not> issubclass c Interval \<and> \<not> issubclass c Set \<and> \<not> issubclass c Array
     \<and> \<not> issubclass c Decimal \<and> \<not> issubclass c UUID"
  by (cases c) simp_all

lemma floating_not_temporal:
  "issubclass c Floating \<Longrightarrow>
     \<not> issubclass c Timestamp \<and> \<not> issubclass c Time \<and> \<not> issubclass c Binary
     \<and> \<not> issubclass c Struct"
  by (cases c) simp_all

lemma typeclass_floating: "is_floating t \<Longrightarrow> typeclass t = Some ''number''"
  using floating_kinds [of "py_class t"]
  by (simp add: typeclass_def is_floating_def is_boolean_def is_string_def is_date_def
      is_numeric_def isinstance_def)

lemma number_format_nonfinite:
  "number_literal_format fr \<lparr>op_value = VFloat NaN, output_dtype = t\<rparr> = Inr ''CAST('NaN' AS DOUBLE)''"
  "number_literal_format fr \<lparr>op_value = VFloat PosInf, output_dtype = t\<rparr> = Inr ''CAST('Infinity' AS DOUBLE)''"
  "number_literal_format fr \<lparr>op_value = VFloat NegInf, output_dtype = t\<rparr> = Inr ''CAST('-Infinity' AS DOUBLE)''"
  "number_literal_format fr \<lparr>op_value = VFloat (Finite m e), output_dtype = t\<rparr> = Inr (fr m e)"
  by (simp_all add: number_literal_format_def repr_str_def Let_def)

lemma literal_number:
  "is_floating t \<Longrightarrow>
   literal (literal_formatters fr f1 f2 f3 f4) dr \<lparr>op_value = VFloat x, output_dtype = t\<rparr>
     = number_literal_format fr \<lparr>op_value = VFloat x, output_dtype = t\<rparr>"
  by (simp add: literal_def typeclass_floating literal_formatters_def)

text \<open>
  Claim C2, as amended. For a literal of a floating type, the generic literal formatter
  renders \<open>NaN\<close>, \<open>+Infinity\<close> and \<open>-Infinity\<close> as a cast from a string,
  \<open>CAST('NaN' AS DOUBLE)\<close>, \<open>CAST('Infinity' AS DOUBLE)\<close> and \<open>CAST('-Infinity' AS DOUBLE)\<close>,
  never as a bare token, and a finite value as its plain \<open>repr\<close>. BigQuery's rule casts the
  strings \<open>nan\<close>, \<open>inf\<close> and \<open>-inf\<close> to \<open>FLOAT64\<close> and renders a finite value as its plain
  \<open>repr\<close> too. DuckDB's rule casts the strings \<open>NaN\<close>, \<open>Inf\<close> and \<open>-Inf\<close> to the SQL type of
  the literal, and a finite value is the bound number inside the same cast, not a plain
  literal.
\<close>

theorem nonfinite_float_literals:
  "is_floating t \<longrightarrow>
     literal (literal_formatters fr f1 f2 f3 f4) dr \<lparr>op_value = VFloat NaN, output_dtype = t\<rparr>
       = Inr ''CAST('NaN' AS DOUBLE)''
   \<and> literal (literal_formatters fr f1 f2 f3 f4) dr \<lparr>op_value = VFloat PosInf, output_dtype = t\<rparr>
       = Inr ''CAST('Infinity' AS DOUBLE)''
   \<and> literal (literal_formatters fr f1 f2 f3 f4) dr \<lparr>op_value = VFloat NegInf, output_dtype = t\<rparr>
       = Inr ''CAST('-Infinity' AS DOUBLE)''
   \<and> literal (literal_formatters fr f1 f2 f3 f4) dr \<lparr>op_value = VFloat (Finite m e), output_dtype = t\<rparr>
       = Inr (fr m e)
   \<and> duckdb_literal tr gst res sf fr \<lparr>op_value = VFloat NaN, output_dtype = t\<rparr>
       = Inr (SaCast (SaLiteral (VStr ''NaN'')) (gst t))
   \<and> duckdb_literal tr gst res sf fr \<lparr>op_value = VFloat PosInf, output_dtype = t\<rparr>
       = Inr (SaCast (SaLiteral (VStr ''Inf'')) (gst t))
   \<and> duckdb_literal tr gst res sf fr \<lparr>op_value = VFloat NegInf, output_dtype = t\<rparr>
       = Inr (SaCast (SaLiteral (VStr ''-Inf'')) (gst t))
   \<and> bigquery_literal tr' bqt sf' (literal_formatters fr f1 f2 f3 f4) dr fr
        \<lparr>op_value = VFloat NaN, output_dtype = t\<rparr> = Inr ''CAST('nan' AS FLOAT64)''
   \<and> bigquery_literal tr' bqt sf' (literal_formatters fr f1 f2 f3 f4) dr fr
        \<lparr>op_value = VFloat PosInf, output_dtype = t\<rparr> = Inr ''CAST('inf' AS FLOAT64)''
   \<and> bigquery_literal tr' bqt sf' (literal_formatters fr f1 f2 f3 f4) dr fr
        \<lparr>op_value = VFloat NegInf, output_dtype = t\<rparr> = Inr ''CAST('-inf' AS FLOAT64)''
   \<and> bigquery_literal tr' bqt sf' (literal_formatters fr f1 f2 f3 f4) dr fr
        \<lparr>op_value = VFloat (Finite m e), output_dtype = t\<rparr> = Inr (fr m e)
   \<and> duckdb_literal tr gst res sf fr \<lparr>op_value = VFloat (Finite m e), output_dtype = t\<rparr>
       = Inr (SaCast (SaLiteral (VFloat (Finite m e))) (gst t))"
proof
  assume fl: "is_floating t"
  then have k: "\<not> is_interval t" "\<not> is_set t" "\<not> is_array t" "\<not> is_decimal t" "\<not> is_uuid t"
    "isinstance t Numeric"
    using floating_kinds [of "py_class t"]
    by (simp_all add: is_floating_def is_interval_def is_set_def is_array_def is_decimal_def
        is_uuid_def isinstance_def)
  have g: "literal (literal_formatters fr f1 f2 f3 f4) dr \<lparr>op_value = VFloat x, output_dtype = t\<rparr>
     = number_literal_format fr \<lparr>op_value = VFloat x, output_dtype = t\<rparr>" for x
    using fl by (rule literal_number)
  have d: "duckdb_literal tr gst res sf fr \<lparr>op_value = VFloat x, output_dtype = t\<rparr>
     = (case x of Finite m e \<Rightarrow> Inr (SaCast (SaLiteral (VFloat x)) (gst t))
        | NaN \<Rightarrow> Inr (SaCast (SaLiteral (VStr ''NaN'')) (gst t))
        | PosInf \<Rightarrow> Inr (SaCast (SaLiteral (VStr ''Inf'')) (gst t))
        | NegInf \<Rightarrow> Inr (SaCast (SaLiteral (VStr ''-Inf'')) (gst t)))" for x
    using fl k by (cases x) (simp_all add: duckdb_literal_def Let_def)
  have b: "bigquery_literal tr' bqt sf' (literal_formatters fr f1 f2 f3 f4) dr fr
        \<lparr>op_value = VFloat NaN, output_dtype = t\<rparr> = Inr ''CAST('nan' AS FLOAT64)''"
    "bigquery_literal tr' bqt sf' (literal_formatters fr f1 f2 f3 f4) dr fr
        \<lparr>op_value = VFloat PosInf, output_dtype = t\<rparr> = Inr ''CAST('inf' AS FLOAT64)''"
    "bigquery_literal tr' bqt sf' (literal_formatters fr f1 f2 f3 f4) dr fr
        \<lparr>op_value = VFloat NegInf, output_dtype = t\<rparr> = Inr ''CAST('-inf' AS FLOAT64)''"
    using k by (simp_all add: bigquery_literal_def Let_def repr_str_def)
  have bf: "bigquery_literal tr' bqt sf' (literal_formatters fr f1 f2 f3 f4) dr fr
        \<lparr>op_value = VFloat (Finite m e), output_dtype = t\<rparr>
      = literal (literal_formatters fr f1 f2 f3 f4) dr \<lparr>op_value = VFloat (Finite m e), output_dtype = t\<rparr>"
    using fl k floating_kinds [of "py_class t"] floating_not_temporal [of "py_class t"]
    by (simp add: bigquery_literal_def Let_def is_floating_def is_struct_def isinstance_def g
        number_format_nonfinite)
  show "literal (literal_formatters fr f1 f2 f3 f4) dr \<lparr>op_value = VFloat NaN, output_dtype = t\<rparr>
       = Inr ''CAST('NaN' AS DOUBLE)''
   \<and> literal (literal_formatters fr f1 f2 f3 f4) dr \<lparr>op_value = VFloat PosInf, output_dtype = t\<rparr>
       = Inr ''CAST('Infinity' AS DOUBLE)''
   \<and> literal (literal_formatters fr f1 f2 f3 f4) dr \<lparr>op_value = VFloat NegInf, output_dtype = t\<rparr>
       = Inr ''CAST('-Infinity' AS DOUBLE)''
   \<and> literal (literal_formatters fr f1 f2 f3 f4) dr \<lparr>op_value = VFloat (Finite m e), output_dtype = t\<rparr>
       = Inr (fr m e)
   \<and> duckdb_literal tr gst res sf fr \<lparr>op_value = VFloat NaN, output_dtype = t\<rparr>
       = Inr (SaCast (SaLiteral (VStr ''NaN'')) (gst t))
   \<and> duckdb_literal tr gst res sf fr \<lparr>op_value = VFloat PosInf, output_dtype = t\<rparr>
       = Inr (SaCast (SaLiteral (VStr ''Inf'')) (gst t))
   \<and> duckdb_literal tr gst res sf fr \<lparr>op_value = VFloat NegInf, output_dtype = t\<rparr>
       = Inr (SaCast (SaLiteral (VStr ''-Inf'')) (gst t))
   \<and> bigquery_literal tr' bqt sf' (literal_formatters fr f1 f2 f3 f4) dr fr
        \<lparr>op_value = VFloat NaN, output_dtype = t\<rparr> = Inr ''CAST('nan' AS FLOAT64)''
   \<and> bigquery_literal tr' bqt sf' (literal_formatters fr f1 f2 f3 f4) dr fr
        \<lparr>op_value = VFloat PosInf, output_dtype = t\<rparr> = Inr ''CAST('inf' AS FLOAT64)''
   \<and> bigquery_literal tr' bqt sf' (literal_formatters fr f1 f2 f3 f4) dr fr
        \<lparr>op_value = VFloat NegInf, output_dtype = t\<rparr> = Inr ''CAST('-inf' AS FLOAT64)''
   \<and> bigquery_literal tr' bqt sf' (literal_formatters fr f1 f2 f3 f4) dr fr
        \<lparr>op_value = VFloat (Finite m e), output_dtype = t\<rparr> = Inr (fr m e)
   \<and> duckdb_literal tr gst res sf fr \<lparr>op_value = VFloat (Finite m e), output_dtype = t\<rparr>
       = Inr (SaCast (SaLiteral (VFloat (Finite m e))) (gst t))"
    by (simp add: g d b bf number_format_nonfinite)
qed

text \<open>The type \<open>float64\<close>, with \<open>NaN\<close> and with the finite value \<open>3 * 2 ^ (- 1)\<close>.\<close>

theorem nonfinite_float_literals_witness:
  "literal (literal_formatters (\<lambda>m e. ''1.5'') string_literal_format string_literal_format
       string_literal_format string_literal_format) (\<lambda>t. ''Float64'')
     \<lparr>op_value = VFloat NaN, output_dtype = float64\<rparr> = Inr ''CAST('NaN' AS DOUBLE)''
   \<and> literal (literal_formatters (\<lambda>m e. ''1.5'') string_literal_format string_literal_format
       string_literal_format string_literal_format) (\<lambda>t. ''Float64'')
     \<lparr>op_value = VFloat (Finite 3 (- 1)), output_dtype = float64\<rparr> = Inr ''1.5''
   \<and> duckdb_literal (\<lambda>x. Inr SaNull) (\<lambda>t. ''DOUBLE PRECISION'') (\<lambda>t. []) (\<lambda>t k. None)
       (\<lambda>m e. ''1.5'') \<lparr>op_value = VFloat NegInf, output_dtype = float64\<rparr>
     = Inr (SaCast (SaLiteral (VStr ''-Inf'')) ''DOUBLE PRECISION'')"
proof -
  have "is_floating float64" by (simp add: is_floating_def isinstance_def float64_def)
  then show ?thesis
    using nonfinite_float_literals [where t = float64 and fr = "\<lambda>m e. ''1.5''"
        and ?f1.0 = string_literal_format and ?f2.0 = string_literal_format
        and ?f3.0 = string_literal_format and ?f4.0 = string_literal_format
        and dr = "\<lambda>t. ''Float64''" and m = 3 and e = "- 1"
        and tr = "\<lambda>x. Inr SaNull" and gst = "\<lambda>t. ''DOUBLE PRECISION''" and res = "\<lambda>t. []"
        and sf = "\<lambda>t k. None"]
    by simp
qed

text \<open>
  Claim C2 as stated fails for DuckDB on finite values: the literal \<open>1.5\<close> of type
  \<open>float64\<close> is not the plain number but the bound number inside a cast to the SQL
  type the translator gives for \<open>float64\<close>.
\<close>

theorem duckdb_finite_float_counterexample:
  "duckdb_literal (\<lambda>x. Inr SaNull) (\<lambda>t. ''DOUBLE PRECISION'') (\<lambda>t. []) (\<lambda>t k. None)
       (\<lambda>m e. ''1.5'') \<lparr>op_value = VFloat (Finite 3 (- 1)), output_dtype = float64\<rparr>
     = Inr (SaCast (SaLiteral (VFloat (Finite 3 (- 1)))) ''DOUBLE PRECISION'')
   \<and> duckdb_literal (\<lambda>x. Inr SaNull) (\<lambda>t. ''DOUBLE PRECISION'') (\<lambda>t. []) (\<lambda>t k. None)
       (\<lambda>m e. ''1.5'') \<lparr>op_value = VFloat (Finite 3 (- 1)), output_dtype = float64\<rparr>
     \<noteq> Inr (SaLiteral (VFloat (Finite 3 (- 1))))"
  by (simp add: duckdb_literal_def Let_def float64_def is_interval_def is_set_def is_array_def
      is_floating_def isinstance_def)

text \<open>
  Claim C7. A literal whose value is \<open>None\<close> renders as the null token whatever its declared
  type: \<open>NULL\<close> in the generic formatter and in BigQuery, \<open>sa.null()\<close> in DuckDB. The check
  precedes the dispatch on the kind: a struct type has no formatter, a struct literal with a
  value raises \<open>NotImplementedError\<close>, and a struct literal holding \<open>None\<close> is \<open>NULL\<close>.
\<close>

theorem none_literal_is_null:
  "literal formatters dr \<lparr>op_value = VNone, output_dtype = t\<rparr> = Inr ''NULL''
   \<and> bigquery_literal tr bqt sf formatters dr fr \<lparr>op_value = VNone, output_dtype = t\<rparr> = Inr ''NULL''
   \<and> duckdb_literal tr' gst res sf' fr \<lparr>op_value = VNone, output_dtype = t\<rparr> = Inr SaNull
   \<and> typeclass \<lparr>py_class = Struct, nullable = True\<rparr> = None
   \<and> literal formatters dr \<lparr>op_value = VInt 1, output_dtype = \<lparr>py_class = Struct, nullable = True\<rparr>\<rparr>
       = Inl (NotImplementedError (''Unsupported type: '' @ dr \<lparr>py_class = Struct, nullable = True\<rparr>))
   \<and> literal formatters dr \<lparr>op_value = VNone, output_dtype = \<lparr>py_class = Struct, nullable = True\<rparr>\<rparr>
       = Inr ''NULL''"
  by (simp add: literal_def bigquery_literal_def duckdb_literal_def typeclass_def Let_def
      is_boolean_def is_string_def is_date_def is_numeric_def is_timestamp_def is_interval_def
      is_set_def isinstance_def)

section \<open>Properties of the dialect registries\<close>

subsection \<open>Denylists\<close>

lemma duckdb_denied: "k \<in> duckdb_invalid_operations \<Longrightarrow> duckdb_operation_registry pg geo rule k = None"
  by (simp add: duckdb_operation_registry_def Let_def restrict_map_def)

lemma bigquery_denied: "k \<in> bigquery_invalid_operations \<Longrightarrow> bigquery_OPERATION_REGISTRY base rule k = None"
  by (simp add: bigquery_OPERATION_REGISTRY_def Let_def restrict_map_def)

lemma compile_raises:
  "k \<in> kinds e \<Longrightarrow> registry k = None \<Longrightarrow> isl (compile registry e)"
  "k \<in> kinds_all es \<Longrightarrow> registry k = None \<Longrightarrow> isl (compile_all registry es)"
  by (induction registry e and registry es rule: compile_compile_all.induct)
    (auto split: sum.splits option.splits)

text \<open>
  Claim C3. An operation kind on a dialect's denylist has no rule in the dialect's final
  registry, whatever the registry it starts from and the overlay hold; so compiling an
  expression that contains the operation raises, and yields no text.
\<close>

theorem denylisted_operations_raise:
  "(k \<in> duckdb_invalid_operations \<longrightarrow>
      duckdb_operation_registry pg geo rule k = None
      \<and> (k \<in> kinds e \<longrightarrow> isl (compile (duckdb_operation_registry pg' geo' rule') e)))
   \<and> (k \<in> bigquery_invalid_operations \<longrightarrow>
      bigquery_OPERATION_REGISTRY base rule k = None
      \<and> (k \<in> kinds e \<longrightarrow> isl (compile (bigquery_OPERATION_REGISTRY base' rule') e)))"
proof (intro conjI impI)
  assume k: "k \<in> duckdb_invalid_operations"
  then show "duckdb_operation_registry pg geo rule k = None" by (rule duckdb_denied)
  assume "k \<in> kinds e"
  then show "isl (compile (duckdb_operation_registry pg' geo' rule') e)"
    using duckdb_denied [OF k] by (rule compile_raises(1))
next
  assume k: "k \<in> bigquery_invalid_operations"
  then show "bigquery_OPERATION_REGISTRY base rule k = None" by (rule bigquery_denied)
  assume "k \<in> kinds e"
  then show "isl (compile (bigquery_OPERATION_REGISTRY base' rule') e)"
    using bigquery_denied [OF k] by (rule compile_raises(1))
qed


text \<open>
  \<open>NTile\<close> under a sum, compiled with a DuckDB registry whose Postgres base has a rule
  for \<open>NTile\<close>; \<open>DateDiff\<close> in a BigQuery registry whose base has a rule for it.
\<close>

theorem denylisted_operations_raise_witness:
  "duckdb_operation_registry [''NTile'' \<mapsto> (0::nat), ''Sum'' \<mapsto> 1] {} (\<lambda>k. 2) ''NTile'' = None
   \<and> isl (compile (duckdb_operation_registry
                     [''NTile'' \<mapsto> (\<lambda>ts. Inr ''ntile''), ''Sum'' \<mapsto> (\<lambda>ts. Inr ''sum'')] {}
                     (\<lambda>k ts. Inr k))
             (Node ''Sum'' [Node ''NTile'' [Node ''Literal'' []]]))
   \<and> bigquery_OPERATION_REGISTRY [''DateDiff'' \<mapsto> (0::nat)] (\<lambda>k. 2) ''DateDiff'' = None"
proof -
  have d: "''NTile'' \<in> duckdb_invalid_operations"
    by (simp add: duckdb_invalid_operations_def)
  have b: "''DateDiff'' \<in> bigquery_invalid_operations"
    by (simp add: bigquery_invalid_operations_def)
  have n: "''NTile'' \<in> kinds (Node ''Sum'' [Node ''NTile'' [Node ''Literal'' []]])"
    by simp
  from d n b show ?thesis
    using denylisted_operations_raise [where k = "''NTile''"
        and pg = "[''NTile'' \<mapsto> (0::nat), ''Sum'' \<mapsto> 1]" and geo = "{}" and rule = "\<lambda>k. 2"
        and e = "Node ''Sum'' [Node ''NTile'' [Node ''Literal'' []]]"
        and pg' = "[''NTile'' \<mapsto> (\<lambda>ts. Inr ''ntile''), ''Sum'' \<mapsto> (\<lambda>ts. Inr ''sum'')]"
        and geo' = "{}" and rule' = "\<lambda>k ts. Inr k"]
      denylisted_operations_raise [where k = "''DateDiff''" and rule = "\<lambda>k. 2"
        and base = "[''DateDiff'' \<mapsto> (0::nat)]"]
    by blast
qed

subsection \<open>Negative array indices\<close>







subsection \<open>Units outside the allow-list\<close>










section \<open>Properties of grouped tables\<close>

lemma get_window_default:
  "gt_window self = None \<Longrightarrow>
   get_window strict self =
     Inr \<lparr>how = ROWS, frame_table = gt_table self, group_by = gt_by self,
          order_by = gt_order_by self, frame_start = None, frame_end = None\<rparr>"
  by (simp add: get_window_def)

lemma windowize_wraps:
  "unwindowed (windowize_function e frame) = []"
  by (induction e frame rule: windowize_function.induct) simp_all

lemma windowize_windows:
  "set (windows (windowize_function e frame)) = set (windows e) \<union> (\<lambda>a. (a, frame)) ` set (unwindowed e)"
  by (induction e frame rule: windowize_function.induct) auto

lemma concat_map_inner: "concat (map (\<lambda>e1. map f (g e1)) ys) = map f (concat (map g ys))"
  by (induction ys) simp_all

lemma positional_map:
  "concat (map (\<lambda>ex. concat (map (\<lambda>e1. map f (promote_list (ensure_expr e1))) (promote_list ex))) exprs)
     = map f (positional ensure_expr exprs)"
  unfolding positional_def by (induction exprs) (simp_all add: concat_map_inner)

lemma keyword_map:
  "concat (map (\<lambda>(k, ex). map (\<lambda>e. h e k) (promote_list (ensure_expr ex))) kwexprs)
     = map (\<lambda>(k, e). h e k) (keyword ensure_expr kwexprs)"
  unfolding keyword_def by (induction kwexprs) (auto simp: o_def)

lemma selectables_default:
  "gt_window self = None \<Longrightarrow>
   selectables windowize ensure_expr strict self exprs kwexprs =
     Inr (map (\<lambda>e. windowize e \<lparr>how = ROWS, frame_table = gt_table self, group_by = gt_by self,
                 order_by = gt_order_by self, frame_start = None, frame_end = None\<rparr>)
            (positional ensure_expr exprs)
          @ map (\<lambda>(k, e). Alias (windowize e \<lparr>how = ROWS, frame_table = gt_table self,
                   group_by = gt_by self, order_by = gt_order_by self, frame_start = None,
                   frame_end = None\<rparr>) k)
              (keyword ensure_expr kwexprs))"
  by (simp add: selectables_def get_window_default positional_map keyword_map)

text \<open>
  Claim C5, as amended. For a grouped table that carries no explicit window (\<open>over\<close> was not
  called), \<open>mutate\<close> and \<open>select\<close> windowize every projected expression, in order, with the
  default frame: a \<open>ROWS\<close> frame whose \<open>group_by\<close> is the grouping keys and whose \<open>order_by\<close>
  is the declared ordering (empty when none was declared). Every aggregate call that is not
  already windowed is wrapped in that frame, no call stays unwindowed, and the windows that
  were there keep their frames.
\<close>

theorem grouped_projection_default_frame:
  "gt_window self = None
     \<and> F = \<lparr>how = ROWS, frame_table = gt_table self, group_by = gt_by self,
              order_by = gt_order_by self, frame_start = None, frame_end = None\<rparr>
   \<longrightarrow> get_window strict self = Inr F
     \<and> selectables windowize_function ensure_expr strict self exprs kwexprs =
         Inr (map (\<lambda>e. windowize_function e F) (positional ensure_expr exprs)
              @ map (\<lambda>(k, e). Alias (windowize_function e F) k) (keyword ensure_expr kwexprs))
     \<and> mutate windowize_function ensure_expr strict self exprs kwexprs =
         Inr (Mutate (gt_table self)
               (map (\<lambda>e. windowize_function e F) (positional ensure_expr exprs)
                @ map (\<lambda>(k, e). Alias (windowize_function e F) k) (keyword ensure_expr kwexprs)))
     \<and> select windowize_function ensure_expr strict self exprs kwexprs =
         Inr (Select (gt_table self)
               (map (\<lambda>e. windowize_function e F) (positional ensure_expr exprs)
                @ map (\<lambda>(k, e). Alias (windowize_function e F) k) (keyword ensure_expr kwexprs)))
     \<and> unwindowed (windowize_function e F) = []
     \<and> unwindowed (Alias (windowize_function e F) k) = []
     \<and> set (windows (windowize_function e F))
         = set (windows e) \<union> (\<lambda>a. (a, F)) ` set (unwindowed e)"
proof (intro impI)
  assume a: "gt_window self = None
     \<and> F = \<lparr>how = ROWS, frame_table = gt_table self, group_by = gt_by self,
              order_by = gt_order_by self, frame_start = None, frame_end = None\<rparr>"
  then have n: "gt_window self = None" by simp
  have g: "get_window strict self = Inr F"
    using a by (simp add: get_window_default)
  have s: "selectables windowize_function ensure_expr strict self exprs kwexprs =
         Inr (map (\<lambda>e. windowize_function e F) (positional ensure_expr exprs)
              @ map (\<lambda>(k, e). Alias (windowize_function e F) k) (keyword ensure_expr kwexprs))"
    using a selectables_default [OF n, of windowize_function ensure_expr strict exprs kwexprs]
    by simp
  have m: "mutate windowize_function ensure_expr strict self exprs kwexprs =
         Inr (Mutate (gt_table self)
               (map (\<lambda>e. windowize_function e F) (positional ensure_expr exprs)
                @ map (\<lambda>(k, e). Alias (windowize_function e F) k) (keyword ensure_expr kwexprs)))"
    by (simp add: mutate_def s)
  have p: "select windowize_function ensure_expr strict self exprs kwexprs =
         Inr (Select (gt_table self)
               (map (\<lambda>e. windowize_function e F) (positional ensure_expr exprs)
                @ map (\<lambda>(k, e). Alias (windowize_function e F) k) (keyword ensure_expr kwexprs)))"
    by (simp add: select_def s)
  have u: "unwindowed (Alias (windowize_function e F) k) = []"
    by (simp add: windowize_wraps)
  show "get_window strict self = Inr F
     \<and> selectables windowize_function ensure_expr strict self exprs kwexprs =
         Inr (map (\<lambda>e. windowize_function e F) (positional ensure_expr exprs)
              @ map (\<lambda>(k, e). Alias (windowize_function e F) k) (keyword ensure_expr kwexprs))
     \<and> mutate windowize_function ensure_expr strict self exprs kwexprs =
         Inr (Mutate (gt_table self)
               (map (\<lambda>e. windowize_function e F) (positional ensure_expr exprs)
                @ map (\<lambda>(k, e). Alias (windowize_function e F) k) (keyword ensure_expr kwexprs)))
     \<and> select windowize_function ensure_expr strict self exprs kwexprs =
         Inr (Select (gt_table self)
               (map (\<lambda>e. windowize_function e F) (positional ensure_expr exprs)
                @ map (\<lambda>(k, e). Alias (windowize_function e F) k) (keyword ensure_expr kwexprs)))
     \<and> unwindowed (windowize_function e F) = []
     \<and> unwindowed (Alias (windowize_function e F) k) = []
     \<and> set (windows (windowize_function e F))
         = set (windows e) \<union> (\<lambda>a. (a, F)) ` set (unwindowed e)"
    by (intro conjI g s m p u windowize_wraps windowize_windows)
qed

text \<open>
  A table grouped by \<open>k\<close> and ordered by \<open>o\<close>, projecting \<open>add(sum(x), y)\<close>, \<open>max(z)\<close> and
  \<open>n = count()\<close>.
\<close>

theorem grouped_projection_default_frame_witness:
  "selectables windowize_function POne False
       \<lparr>gt_table = ''t'', gt_by = [''k''], gt_order_by = [''o''], gt_having = [], gt_window = None\<rparr>
       [POne (ScalarCall ''add'' [Reduction ''sum'' [TableColumn ''x''], TableColumn ''y'']),
        PList [Reduction ''max'' [TableColumn ''z'']]]
       [(''n'', Reduction ''count'' [])]
     = Inr [ScalarCall ''add''
              [WindowFunction (Reduction ''sum'' [TableColumn ''x''])
                 \<lparr>how = ROWS, frame_table = ''t'', group_by = [''k''], order_by = [''o''],
                   frame_start = None, frame_end = None\<rparr>,
               TableColumn ''y''],
            WindowFunction (Reduction ''max'' [TableColumn ''z''])
              \<lparr>how = ROWS, frame_table = ''t'', group_by = [''k''], order_by = [''o''],
                frame_start = None, frame_end = None\<rparr>,
            Alias (WindowFunction (Reduction ''count'' [])
                     \<lparr>how = ROWS, frame_table = ''t'', group_by = [''k''], order_by = [''o''],
                       frame_start = None, frame_end = None\<rparr>) ''n'']"
proof -
  note t = grouped_projection_default_frame [where
      self = "\<lparr>gt_table = ''t'', gt_by = [''k''], gt_order_by = [''o''], gt_having = [], gt_window = None\<rparr>"
      and F = "\<lparr>how = ROWS, frame_table = ''t'', group_by = [''k''], order_by = [''o''],
                   frame_start = None, frame_end = None\<rparr>"
      and strict = False and ensure_expr = POne
      and exprs = "[POne (ScalarCall ''add'' [Reduction ''sum'' [TableColumn ''x''], TableColumn ''y'']),
        PList [Reduction ''max'' [TableColumn ''z'']]]"
      and kwexprs = "[(''n'', Reduction ''count'' [])]"
      and e = "TableColumn ''x''" and k = "''n''"]
  have h: "gt_window \<lparr>gt_table = ''t'', gt_by = [''k''], gt_order_by = [''o''], gt_having = [], gt_window = None\<rparr> = None
     \<and> \<lparr>how = ROWS, frame_table = ''t'', group_by = [''k''], order_by = [''o''],
                   frame_start = None, frame_end = None\<rparr>
       = \<lparr>how = ROWS,
          frame_table = gt_table \<lparr>gt_table = ''t'', gt_by = [''k''], gt_order_by = [''o''], gt_having = [], gt_window = None\<rparr>,
          group_by = gt_by \<lparr>gt_table = ''t'', gt_by = [''k''], gt_order_by = [''o''], gt_having = [], gt_window = None\<rparr>,
          order_by = gt_order_by \<lparr>gt_table = ''t'', gt_by = [''k''], gt_order_by = [''o''], gt_having = [], gt_window = None\<rparr>,
          frame_start = None, frame_end = None\<rparr>"
    by simp
  show ?thesis
    using t [THEN mp, OF h, THEN conjunct2, THEN conjunct1]
    by (simp add: positional_def keyword_def)
qed

text \<open>
  Claim C5 as stated covers every grouped table, and fails for one that carries an explicit
  window: \<open>_get_window\<close> builds the default frame only when \<open>self._window is None\<close>, and
  sends such a table to its other branch, which is written to extend the explicit window (a
  \<open>RANGE\<close> window here, on a table grouped by \<open>k\<close>) and builds no default \<open>ROWS\<close> frame. As
  the code stands that branch raises (see C9), and the sum is wrapped in no frame at all.
\<close>

theorem explicit_window_projection_counterexample:
  "selectables windowize_function POne False
       \<lparr>gt_table = ''t'', gt_by = [''k''], gt_order_by = [], gt_having = [],
         gt_window = Some \<lparr>how = RANGE, frame_table = ''t'', group_by = [], order_by = [''o''],
                           frame_start = None, frame_end = Some 0\<rparr>\<rparr>
       [POne (Reduction ''sum'' [TableColumn ''x''])] []
     = Inl (TypeError (''can only concatenate tuple (not '' @ [CHR 0x22] @ ''list'' @ [CHR 0x22]
                       @ '') to tuple''))
   \<and> selectables windowize_function POne True
       \<lparr>gt_table = ''t'', gt_by = [''k''], gt_order_by = [], gt_having = [],
         gt_window = Some \<lparr>how = RANGE, frame_table = ''t'', group_by = [], order_by = [''o''],
                           frame_start = None, frame_end = Some 0\<rparr>\<rparr>
       [POne (Reduction ''sum'' [TableColumn ''x''])] []
     = Inl (TypeError (''can only concatenate tuple (not '' @ [CHR 0x22] @ ''list'' @ [CHR 0x22]
                       @ '') to tuple''))"
  by (simp add: selectables_def get_window_def)

text \<open>
  With an explicit window \<open>_get_window\<close> always raises: the frame's tuple of keys and the
  list \<open>self.by\<close> cannot be concatenated, and \<open>copy\<close> is never reached. Had it been reached,
  a \<open>copy\<close> that ignores unknown keywords would leave \<open>group_by\<close> as it was.
\<close>

lemma get_window_explicit:
  "gt_window self = Some w \<Longrightarrow>
   get_window strict self =
     Inl (TypeError (''can only concatenate tuple (not '' @ [CHR 0x22] @ ''list'' @ [CHR 0x22]
                     @ '') to tuple''))"
  by (simp add: get_window_def)

lemma frame_copy_misspelt:
  "frame_copy False w [(''groupy_by'', g), (''order_by'', ob)] = Inr (w\<lparr>order_by := ob\<rparr>)"
  by simp

text \<open>
  Claim C9, at a grouped table with the key \<open>k\<close>, the ordering \<open>p\<close> and, set through
  \<open>over\<close>, a window grouped by \<open>g\<close> and ordered by \<open>o\<close>. The merged frame should have
  \<open>group_by = (g, k)\<close> and \<open>order_by = (o, p)\<close>. \<open>_get_window\<close> returns no frame: it raises
  \<open>TypeError\<close> on \<open>self._window.group_by + self.by\<close>, a tuple and a list, whatever \<open>copy\<close>
  does with the keyword spelt \<open>groupy_by\<close>; \<open>mutate\<close> and \<open>select\<close> raise with it.
\<close>

theorem get_window_explicit_window_raises:
  "over (\<lambda>t k. [k]) (\<lambda>kw. kw)
        \<lparr>gt_table = ''t'', gt_by = [''k''], gt_order_by = [''p''], gt_having = [], gt_window = None\<rparr>
        (Some \<lparr>how = ROWS, frame_table = ''t'', group_by = [''g''], order_by = [''o''],
                frame_start = None, frame_end = None\<rparr>)
        \<lparr>how = ROWS, frame_table = ''t'', group_by = [], order_by = [],
                frame_start = None, frame_end = None\<rparr>
     = \<lparr>gt_table = ''t'', gt_by = [''k''], gt_order_by = [''p''], gt_having = [],
         gt_window = Some \<lparr>how = ROWS, frame_table = ''t'', group_by = [''g''], order_by = [''o''],
                           frame_start = None, frame_end = None\<rparr>\<rparr>
   \<and> get_window False
       \<lparr>gt_table = ''t'', gt_by = [''k''], gt_order_by = [''p''], gt_having = [],
         gt_window = Some \<lparr>how = ROWS, frame_table = ''t'', group_by = [''g''], order_by = [''o''],
                           frame_start = None, frame_end = None\<rparr>\<rparr>
     = Inl (TypeError (''can only concatenate tuple (not '' @ [CHR 0x22] @ ''list'' @ [CHR 0x22]
                       @ '') to tuple''))
   \<and> get_window True
       \<lparr>gt_table = ''t'', gt_by = [''k''], gt_order_by = [''p''], gt_having = [],
         gt_window = Some \<lparr>how = ROWS, frame_table = ''t'', group_by = [''g''], order_by = [''o''],
                           frame_start = None, frame_end = None\<rparr>\<rparr>
     = Inl (TypeError (''can only concatenate tuple (not '' @ [CHR 0x22] @ ''list'' @ [CHR 0x22]
                       @ '') to tuple''))
   \<and> mutate windowize_function POne False
       \<lparr>gt_table = ''t'', gt_by = [''k''], gt_order_by = [''p''], gt_having = [],
         gt_window = Some \<lparr>how = ROWS, frame_table = ''t'', group_by = [''g''], order_by = [''o''],
                           frame_start = None, frame_end = None\<rparr>\<rparr>
       [POne (Reduction ''sum'' [TableColumn ''x''])] []
     = Inl (TypeError (''can only concatenate tuple (not '' @ [CHR 0x22] @ ''list'' @ [CHR 0x22]
                       @ '') to tuple''))"
  by (simp add: get_window_def over_def GroupedTable_init_def mutate_def selectables_def)

end
